theory Spec2Isabelle
  imports Main "HOL-Library.AList"
begin

section \<open>Live session engine of the collaborative diary server\<close>

text \<open>
  The server is a Node.js process: every handler runs to completion on one thread, reads
  the clock with \<^verbatim>\<open>Date.now()\<close> and mutates process-wide maps. In this development
  a handler is a function from the clock value and the state to the emitted messages and
  the new state. Times are milliseconds, as \<^verbatim>\<open>Date.now()\<close> returns them.
\<close>

type_synonym userId = string
type_synonym entryId = string
type_synonym socketId = string
type_synonym time = int

subsection \<open>Rate limiting (server.js, checkRateLimit)\<close>

record rate_data =
  count :: nat
  lastReset :: time

type_synonym rate_map = "userId \<rightharpoonup> rate_data"

definition RATE_LIMIT :: nat where
  "RATE_LIMIT = 10"

definition windowMs :: time where
  "windowMs = 1000"

text \<open>
  \<^verbatim>\<open>userEventCounts\<close> is the map argument. A missing entry is created with count 0 and
  the current time; an entry older than the window is reset; then the count is
  incremented and compared with the limit.
\<close>

definition checkRateLimit :: "time \<Rightarrow> userId \<Rightarrow> rate_map \<Rightarrow> bool \<times> rate_map" where
  "checkRateLimit now u m =
     (let data0 = (case m u of None \<Rightarrow> \<lparr>count = 0, lastReset = now\<rparr> | Some d \<Rightarrow> d);
          data1 = (if now - lastReset data0 > windowMs
                   then data0\<lparr>count := 0, lastReset := now\<rparr> else data0);
          data2 = data1\<lparr>count := count data1 + 1\<rparr>
      in (if count data2 > RATE_LIMIT then False else True, m(u \<mapsto> data2)))"

text \<open>A sequence of checks for one user, at the given clock values, in order.\<close>

fun checkRateLimits :: "time list \<Rightarrow> userId \<Rightarrow> rate_map \<Rightarrow> bool list \<times> rate_map" where
  "checkRateLimits [] u m = ([], m)"
| "checkRateLimits (t # ts) u m =
     (case checkRateLimit t u m of (r, m') \<Rightarrow>
        (case checkRateLimits ts u m' of (rs, m'') \<Rightarrow> (r # rs, m'')))"

text \<open>
  A check at time \<open>t\<close> opens a new window when the user has no record yet or the
  recorded window is more than \<open>windowMs\<close> old.
\<close>

definition opens_window :: "time \<Rightarrow> userId \<Rightarrow> rate_map \<Rightarrow> bool" where
  "opens_window t u m = (case m u of None \<Rightarrow> True | Some d \<Rightarrow> t - lastReset d > windowMs)"

subsection \<open>Event names (constants/diaryCollabWsEvents.js, constants/diarySocialWsEvent.js)\<close>

text \<open>
  The tables of event names, key by key. A handler reads an event name as a property of
  the table; a key the table does not have reads as \<^verbatim>\<open>undefined\<close>, here \<open>None\<close>.
\<close>

definition DIARY_COLLAB_WS_EVENTS :: "(string \<times> string) list" where
  "DIARY_COLLAB_WS_EVENTS =
    [(''COLLAB_INVITE_SENT'', ''collab_invite_sent''),
     (''COLLAB_INVITE_RECEIVED'', ''collab_invite_received''),
     (''COLLAB_INVITE_ACCEPTED'', ''collab_invite_accepted''),
     (''COLLAB_INVITE_DECLINED'', ''collab_invite_declined''),
     (''COLLAB_INVITE_REVOKED'', ''collab_invite_revoked''),
     (''ENTRY_CURSOR_MOVE'', ''entry_cursor_move''),
     (''ENTRY_CURSOR_CLEAR'', ''entry_cursor_clear''),
     (''JOIN_ENTRY_ROOM'', ''join_entry_room''),
     (''LEAVE_ENTRY_ROOM'', ''leave_entry_room''),
     (''CURRENT_VIEWERS'', ''current_viewers''),
     (''ENTRY_COLLAB_JOIN'', ''entry_collab_join''),
     (''ENTRY_COLLAB_LEAVE'', ''entry_collab_leave''),
     (''USER_VIEWING_ENTRY'', ''user_viewing_entry''),
     (''USER_EDITING_ENTRY'', ''user_editing_entry''),
     (''USER_IDLE_ENTRY'', ''user_idle_entry''),
     (''ENTRY_EDIT'', ''entry_edit''),
     (''ENTRY_CURSOR_MOVE'', ''entry_cursor_move''),
     (''ENTRY_SELECTION_CHANGE'', ''entry_selection_change''),
     (''COMMENT_ADDED'', ''comment_added''),
     (''COMMENT_DELETED'', ''comment_deleted''),
     (''ACCESS_DENIED'', ''access_denied''),
     (''PERMISSION_GRANTED'', ''permission_granted''),
     (''PERMISSION_REVOKED'', ''permission_revoked''),
     (''COLLAB_ENDED'', ''collab_ended''),
     (''STATE_REQUEST'', ''state_request''),
     (''STATE_RESPONSE'', ''state_response''),
     (''DESYNC_DETECTED'', ''desync_detected''),
     (''ENTRY_PERMISSION_UPDATED'', ''entry_permission_updated'')]"

definition DIARY_SOCIAL_WS_EVENTS :: "(string \<times> string) list" where
  "DIARY_SOCIAL_WS_EVENTS =
    [(''FRIEND_REQUEST_SENT'', ''friend_request_sent''),
     (''FRIEND_REQUEST_RECEIVED'', ''friend_request_received''),
     (''FRIEND_ACCEPTED'', ''friend_accepted''),
     (''FRIEND_ONLINE'', ''friend_online''),
     (''FRIEND_OFFLINE'', ''friend_offline''),
     (''FRIEND_TYPING'', ''friend_typing''),
     (''FRIENDS_LIST'', ''friends_list''),
     (''ENTRY_INVITE_SENT'', ''entry_invite_sent''),
     (''ENTRY_INVITE_ACCEPTED'', ''entry_invite_accepted''),
     (''ENTRY_INVITE_DECLINED'', ''entry_invite_declined''),
     (''ENTRY_INVITE_CANCELLED'', ''entry_invite_cancelled'')]"

definition collab_event :: "string \<Rightarrow> string option" where
  "collab_event key = map_of DIARY_COLLAB_WS_EVENTS key"

definition social_event :: "string \<Rightarrow> string option" where
  "social_event key = map_of DIARY_SOCIAL_WS_EVENTS key"

subsection \<open>Messages\<close>

text \<open>
  A cursor position and the content of an edit are JSON values that the server copies
  without looking inside; a pair of integers and a string stand for them. A payload
  field that the client left out is \<open>None\<close>.
\<close>

type_synonym position = "int \<times> int"

record cursor_data =
  c_userId :: userId
  c_position :: position
  c_timestamp :: time

text \<open>
  The value kept per user by the friends cache is a JavaScript object. Four of its
  properties are ever read or written: \<^verbatim>\<open>onlineFriends\<close> and \<^verbatim>\<open>offlineFriends\<close>
  (written by sendFriendsList) and \<^verbatim>\<open>online\<close> and \<^verbatim>\<open>offline\<close> (read and written by
  updateStatus). A property the object does not have is \<open>None\<close>.
\<close>

record cache_entry =
  ce_onlineFriends :: "userId list option"
  ce_offlineFriends :: "userId list option"
  ce_online :: "userId list option"
  ce_offline :: "userId list option"

record edit_data =
  ed_entryId :: entryId
  ed_content :: "string option"
  ed_operation :: "string option"
  ed_cursorPosition :: "position option"
  ed_userId :: userId
  ed_timestamp :: time

datatype payload =
    CursorMoved cursor_data
  | CursorCleared userId entryId
  | CurrentViewers entryId "(userId \<times> string) set"
  | EntryPresence entryId userId time
  | EditRelayed edit_data
  | ConflictNotice entryId string time
  | ErrorNotice string string
  | FriendPresence userId time
  | FriendsList cache_entry time

text \<open>
  \<open>ToSocket s\<close> is \<^verbatim>\<open>socket.emit\<close> on the socket \<open>s\<close>; \<open>ToRoomExcept r s\<close> is
  \<^verbatim>\<open>socket.to(r).emit\<close>, delivered to every socket in room \<open>r\<close> but \<open>s\<close>;
  \<open>ToRoom r\<close> is \<^verbatim>\<open>io.to(r).emit\<close>.
\<close>

datatype target = ToSocket socketId | ToRoomExcept string socketId | ToRoom string

type_synonym emission = "target \<times> string option \<times> payload"

datatype js_error = DbError | TypeError

subsection \<open>State\<close>

record socket =
  sock_id :: socketId
  sock_userId :: userId

record last_edit =
  le_userId :: userId
  le_timestamp :: time

text \<open>
  A pending debounce timer: the time from which it may fire and the variables its
  callback captured. The handle that \<^verbatim>\<open>setTimeout\<close> returns is kept only in
  \<^verbatim>\<open>debounceMap\<close>, a timer is cancelled only through that entry, and its callback removes
  the entry, so the pending timers are the entries of the map.
\<close>

record pending_edit =
  pe_fire_at :: time
  pe_entryId :: entryId
  pe_content :: "string option"
  pe_operation :: "string option"
  pe_cursorPosition :: "position option"
  pe_userId :: userId

record connection_row =
  w_socket_id :: socketId
  w_online :: bool
  w_last_seen :: time

record session_row =
  s_status :: string
  s_joined_at :: time
  s_last_seen :: time

type_synonym cursor_store = "(entryId \<times> (userId \<times> cursor_data) list) list"
type_synonym friends_cache = "userId \<rightharpoonup> cache_entry"
type_synonym sessions_table = "((entryId \<times> userId) \<times> session_row) list"

text \<open>
  The process-wide maps, the rooms of the Socket.IO adapter and the three tables of the
  store that the handlers query. \<^verbatim>\<open>cursorStore\<close> is a Map of Maps, iterated in insertion
  order on disconnect, so it is an association list of association lists. The table
  \<^verbatim>\<open>active_sessions\<close> has a unique constraint on (entry_id, user_id) and is keyed by it;
  \<^verbatim>\<open>friends\<close> holds (user_id, friend_id) rows.
\<close>

record server =
  userEventCounts :: rate_map
  connectedUsers :: "userId \<rightharpoonup> socketId"
  cursorStore :: cursor_store
  lastEditMap :: "entryId \<rightharpoonup> last_edit"
  debounceMap :: "socketId \<rightharpoonup> pending_edit"
  cursorThrottleMap :: "socketId \<rightharpoonup> time"
  friendsCache :: friends_cache
  rooms :: "(string \<times> socketId) list"
  ws_connections :: "userId \<rightharpoonup> connection_row"
  active_sessions :: sessions_table
  friends :: "(userId \<times> userId) list"

definition init_server :: server where
  "init_server =
     \<lparr>userEventCounts = Map.empty, connectedUsers = Map.empty, cursorStore = [],
      lastEditMap = Map.empty, debounceMap = Map.empty, cursorThrottleMap = Map.empty,
      friendsCache = Map.empty, rooms = [], ws_connections = Map.empty,
      active_sessions = [], friends = []\<rparr>"

definition room_of :: "entryId \<Rightarrow> string" where
  "room_of e = ''entry_'' @ e"

text \<open>JavaScript truthiness of an optional string and of an optional number.\<close>

definition falsy_str :: "string option \<Rightarrow> bool" where
  "falsy_str v = (case v of None \<Rightarrow> True | Some s \<Rightarrow> s = [])"

definition falsy_num :: "int option \<Rightarrow> bool" where
  "falsy_num v = (case v of None \<Rightarrow> True | Some n \<Rightarrow> n = 0)"

subsection \<open>Cursor store (handlers/collaboration.js)\<close>

definition handleCursorMove ::
  "time \<Rightarrow> socket \<Rightarrow> userId \<Rightarrow> entryId \<Rightarrow> position \<Rightarrow> cursor_store
     \<Rightarrow> emission list \<times> cursor_store" where
  "handleCursorMove now sock u e pos cs =
     (let cs1 = (if map_of cs e = None then AList.update e [] cs else cs);
          entryCursors = (case map_of cs1 e of None \<Rightarrow> [] | Some m \<Rightarrow> m);
          cursorPayload = \<lparr>c_userId = u, c_position = pos, c_timestamp = now\<rparr>
      in ([(ToRoomExcept (room_of e) (sock_id sock), collab_event ''ENTRY_CURSOR_MOVE'',
            CursorMoved cursorPayload)],
          AList.update e (AList.update u cursorPayload entryCursors) cs1))"

text \<open>
  The ENTRY_CURSOR_MOVE handler: an event without entryId or position is ignored; an event
  less than 100 ms after the last accepted one of the same socket is ignored; otherwise
  the time is recorded for the socket and the cursor is stored and broadcast.
\<close>

definition cursor_move_handler ::
  "time \<Rightarrow> socket \<Rightarrow> entryId option \<Rightarrow> position option \<Rightarrow> server
     \<Rightarrow> emission list \<times> server" where
  "cursor_move_handler now sock entryId pos st =
     (if falsy_str entryId \<or> pos = None then ([], st)
      else
        let lastEmit = (case cursorThrottleMap st (sock_id sock) of
                          None \<Rightarrow> 0 | Some t \<Rightarrow> t)
        in if now - lastEmit < 100 then ([], st)
           else
             (case (entryId, pos) of
                (Some e, Some p) \<Rightarrow>
                  (case handleCursorMove now sock (sock_userId sock) e p (cursorStore st) of
                     (ems, cs) \<Rightarrow>
                       (ems, st\<lparr>cursorThrottleMap :=
                                  (cursorThrottleMap st)(sock_id sock \<mapsto> now),
                                cursorStore := cs\<rparr>))
              | _ \<Rightarrow> ([], st)))"

text \<open>Cursor events of one socket, handled in order; each carries its arrival time.\<close>

fun cursor_moves ::
  "socket \<Rightarrow> (time \<times> entryId option \<times> position option) list \<Rightarrow> server
     \<Rightarrow> emission list \<times> server" where
  "cursor_moves sock [] st = ([], st)"
| "cursor_moves sock ((now, entryId, pos) # evs) st =
     (case cursor_move_handler now sock entryId pos st of
        (ems, st1) \<Rightarrow>
          (case cursor_moves sock evs st1 of (ems', st2) \<Rightarrow> (ems @ ems', st2)))"

text \<open>The sockets of the scenarios.\<close>

definition sock_A :: socket where
  "sock_A = \<lparr>sock_id = ''sA'', sock_userId = ''A''\<rparr>"

definition sock_B :: socket where
  "sock_B = \<lparr>sock_id = ''sB'', sock_userId = ''B''\<rparr>"

definition has_cursor :: "server \<Rightarrow> userId \<Rightarrow> entryId \<Rightarrow> bool" where
  "has_cursor st u e =
     (case map_of (cursorStore st) e of None \<Rightarrow> False | Some m \<Rightarrow> map_of m u \<noteq> None)"

definition has_membership :: "server \<Rightarrow> userId \<Rightarrow> entryId \<Rightarrow> bool" where
  "has_membership st u e = (map_of (active_sessions st) (e, u) \<noteq> None)"

subsection \<open>Edit pipeline (handlers/collaboration.js, ENTRY_EDIT handler)\<close>

record edit_event =
  ev_entryId :: "entryId option"
  ev_content :: "string option"
  ev_operation :: "string option"
  ev_cursorPosition :: "position option"
  ev_timestamp :: "time option"

text \<open>
  The handler, in the order of the source: an event without entryId or timestamp is
  ignored; an event over the rate limit is answered with an error; a conflict notice goes
  to the submitting socket when the last recorded edit of the entry is by another user
  and its time is less than 300 ms from the client's timestamp; the pending timer of the
  socket is replaced by one that is due 500 ms from now.
\<close>

definition edit_handler :: "time \<Rightarrow> socket \<Rightarrow> edit_event \<Rightarrow> server \<Rightarrow> emission list \<times> server" where
  "edit_handler now sock payload st =
     (if falsy_str (ev_entryId payload) \<or> falsy_num (ev_timestamp payload) then ([], st)
      else
        (case (ev_entryId payload, ev_timestamp payload) of
           (Some entryId, Some timestamp) \<Rightarrow>
             (case checkRateLimit now (sock_userId sock) (userEventCounts st) of
                (admitted, counts) \<Rightarrow>
                  let st1 = st\<lparr>userEventCounts := counts\<rparr> in
                  if \<not> admitted
                  then ([(ToSocket (sock_id sock), Some ''ERROR'',
                          ErrorNotice ''RATE_LIMIT'' ''Too many edits per second'')], st1)
                  else
                    let conflict =
                          (case lastEditMap st1 entryId of
                             None \<Rightarrow> []
                           | Some lastEdit \<Rightarrow>
                               if le_userId lastEdit \<noteq> sock_userId sock \<and>
                                  \<bar>timestamp - le_timestamp lastEdit\<bar> < 300
                               then [(ToSocket (sock_id sock), collab_event ''CONFLICT_DETECTED'',
                                      ConflictNotice entryId ''last-write-wins'' now)]
                               else [])
                    in (conflict,
                        st1\<lparr>debounceMap := (debounceMap st1)(sock_id sock \<mapsto>
                              \<lparr>pe_fire_at = now + 500, pe_entryId = entryId,
                               pe_content = ev_content payload,
                               pe_operation = ev_operation payload,
                               pe_cursorPosition = ev_cursorPosition payload,
                               pe_userId = sock_userId sock\<rparr>)\<rparr>))
         | _ \<Rightarrow> ([], st)))"

text \<open>
  The timer callback of a socket, run at clock value \<open>now\<close>. It does nothing when the socket
  has no pending timer or the timer is not yet due; otherwise it broadcasts the captured
  edit to the room, records the last edit of the entry and removes the map entry.
\<close>

definition fire_debounce :: "time \<Rightarrow> socketId \<Rightarrow> server \<Rightarrow> emission list \<times> server" where
  "fire_debounce now sid st =
     (case debounceMap st sid of
        None \<Rightarrow> ([], st)
      | Some pe \<Rightarrow>
          if now < pe_fire_at pe then ([], st)
          else
            let editPayload =
                  \<lparr>ed_entryId = pe_entryId pe, ed_content = pe_content pe,
                   ed_operation = pe_operation pe, ed_cursorPosition = pe_cursorPosition pe,
                   ed_userId = pe_userId pe, ed_timestamp = now\<rparr>
            in ([(ToRoomExcept (room_of (pe_entryId pe)) sid, collab_event ''ENTRY_EDIT'',
                  EditRelayed editPayload)],
                st\<lparr>lastEditMap := (lastEditMap st)(pe_entryId pe \<mapsto>
                      \<lparr>le_userId = pe_userId pe, le_timestamp = now\<rparr>),
                   debounceMap := (debounceMap st)(sid := None)\<rparr>))"

text \<open>
  What the timer of a socket has done by the clock value \<open>now\<close>: nothing when none is
  pending or the pending one is not yet due; otherwise its callback has run when it was
  due, so the relayed edit and the last-edit record carry the due time.
\<close>

definition run_due_timer :: "time \<Rightarrow> socketId \<Rightarrow> server \<Rightarrow> emission list \<times> server" where
  "run_due_timer now sid st =
     (case debounceMap st sid of
        None \<Rightarrow> ([], st)
      | Some pe \<Rightarrow>
          if now < pe_fire_at pe then ([], st) else fire_debounce (pe_fire_at pe) sid st)"

text \<open>
  Edit events of one socket, in order, each with its arrival time. A timer of the socket
  that has come due before an event has run before the event is handled.
\<close>

fun edit_burst :: "socket \<Rightarrow> (time \<times> edit_event) list \<Rightarrow> server \<Rightarrow> emission list \<times> server" where
  "edit_burst sock [] st = ([], st)"
| "edit_burst sock ((now, payload) # evs) st =
     (case run_due_timer now (sock_id sock) st of
        (ems0, st0) \<Rightarrow>
          (case edit_handler now sock payload st0 of
             (ems1, st1) \<Rightarrow>
               (case edit_burst sock evs st1 of
                  (ems2, st2) \<Rightarrow> (ems0 @ ems1 @ ems2, st2))))"

text \<open>The relayed edits among emitted messages, with their targets.\<close>

fun relayed_edits :: "emission list \<Rightarrow> (target \<times> edit_data) list" where
  "relayed_edits [] = []"
| "relayed_edits ((tg, ev, EditRelayed d) # ems) = (tg, d) # relayed_edits ems"
| "relayed_edits (em # ems) = relayed_edits ems"

text \<open>The conflict notices among emitted messages.\<close>

fun conflict_notices :: "emission list \<Rightarrow> emission list" where
  "conflict_notices [] = []"
| "conflict_notices ((tg, ev, ConflictNotice e strategy t) # ems) =
     (tg, ev, ConflictNotice e strategy t) # conflict_notices ems"
| "conflict_notices (em # ems) = conflict_notices ems"

text \<open>
  Every event of the list names an entry and a timestamp and passes the rate limiter,
  whose record follows the events.
\<close>

fun edits_admitted :: "userId \<Rightarrow> (time \<times> edit_event) list \<Rightarrow> rate_map \<Rightarrow> bool" where
  "edits_admitted u [] m = True"
| "edits_admitted u ((now, payload) # evs) m =
     (\<not> falsy_str (ev_entryId payload) \<and> \<not> falsy_num (ev_timestamp payload) \<and>
      fst (checkRateLimit now u m) \<and> edits_admitted u evs (snd (checkRateLimit now u m)))"

text \<open>Each arrival is less than 500 ms after the one before.\<close>

fun within_quiet_period :: "time list \<Rightarrow> bool" where
  "within_quiet_period (t # t' # ts) = (t' - t < 500 \<and> within_quiet_period (t' # ts))"
| "within_quiet_period ts = True"

text \<open>The edit that the timer relays for an event, when it fires at \<open>tf\<close>.\<close>

definition relay_of :: "socket \<Rightarrow> edit_event \<Rightarrow> time \<Rightarrow> (target \<times> edit_data) list" where
  "relay_of sock payload tf =
     (case ev_entryId payload of
        None \<Rightarrow> []
      | Some e \<Rightarrow>
          [(ToRoomExcept (room_of e) (sock_id sock),
            \<lparr>ed_entryId = e, ed_content = ev_content payload,
             ed_operation = ev_operation payload,
             ed_cursorPosition = ev_cursorPosition payload,
             ed_userId = sock_userId sock, ed_timestamp = tf\<rparr>)])"

text \<open>The timer that the handler leaves pending for an accepted event handled at \<open>now\<close>.\<close>

definition pending_of :: "socket \<Rightarrow> time \<Rightarrow> edit_event \<Rightarrow> pending_edit option" where
  "pending_of sock now payload =
     (case ev_entryId payload of
        None \<Rightarrow> None
      | Some e \<Rightarrow>
          Some \<lparr>pe_fire_at = now + 500, pe_entryId = e, pe_content = ev_content payload,
                pe_operation = ev_operation payload,
                pe_cursorPosition = ev_cursorPosition payload,
                pe_userId = sock_userId sock\<rparr>)"

text \<open>
  The handler drops an event that lacks entryId or timestamp, or that the rate limiter
  does not admit in the state at hand.
\<close>

definition edit_dropped :: "time \<Rightarrow> socket \<Rightarrow> edit_event \<Rightarrow> server \<Rightarrow> bool" where
  "edit_dropped now sock payload st =
     (falsy_str (ev_entryId payload) \<or> falsy_num (ev_timestamp payload) \<or>
      \<not> fst (checkRateLimit now (sock_userId sock) (userEventCounts st)))"

text \<open>The edit that a pending timer relays when it fires at \<open>tf\<close>.\<close>

definition relay_of_pending :: "socketId \<Rightarrow> pending_edit \<Rightarrow> time \<Rightarrow> (target \<times> edit_data) list" where
  "relay_of_pending sid pe tf =
     [(ToRoomExcept (room_of (pe_entryId pe)) sid,
       \<lparr>ed_entryId = pe_entryId pe, ed_content = pe_content pe,
        ed_operation = pe_operation pe, ed_cursorPosition = pe_cursorPosition pe,
        ed_userId = pe_userId pe, ed_timestamp = tf\<rparr>)]"

text \<open>
  Edit events for the scenarios, as the client hook sends them: the entry, the content,
  the operation \<^verbatim>\<open>update\<close> and the client's clock.
\<close>

definition edit_ev :: "entryId \<Rightarrow> string \<Rightarrow> time \<Rightarrow> edit_event" where
  "edit_ev e c t =
     \<lparr>ev_entryId = Some e, ev_content = Some c, ev_operation = Some ''update'',
      ev_cursorPosition = None, ev_timestamp = Some t\<rparr>"

text \<open>Ten edits of one entry from one socket within 90 ms.\<close>

definition ten_edits :: "(time \<times> edit_event) list" where
  "ten_edits =
     [(1000, edit_ev ''E1'' ''v1'' 1000), (1010, edit_ev ''E1'' ''v2'' 1010),
      (1020, edit_ev ''E1'' ''v3'' 1020), (1030, edit_ev ''E1'' ''v4'' 1030),
      (1040, edit_ev ''E1'' ''v5'' 1040), (1050, edit_ev ''E1'' ''v6'' 1050),
      (1060, edit_ev ''E1'' ''v7'' 1060), (1070, edit_ev ''E1'' ''v8'' 1070),
      (1080, edit_ev ''E1'' ''v9'' 1080), (1090, edit_ev ''E1'' ''v10'' 1090)]"

text \<open>
  Two users edit the same entry with client timestamps 50 ms apart, each event handled at
  the time of its timestamp; both timers then fire when due. The messages emitted, in
  order.
\<close>

definition two_editors_50ms :: "emission list" where
  "two_editors_50ms =
     (case edit_handler 1000 sock_A (edit_ev ''E1'' ''a'' 1000) init_server of
        (ems1, st1) \<Rightarrow>
          (case edit_handler 1050 sock_B (edit_ev ''E1'' ''b'' 1050) st1 of
             (ems2, st2) \<Rightarrow>
               (case fire_debounce 1500 (sock_id sock_A) st2 of
                  (ems3, st3) \<Rightarrow>
                    (case fire_debounce 1550 (sock_id sock_B) st3 of
                       (ems4, st4) \<Rightarrow> ems1 @ ems2 @ ems3 @ ems4))))"

text \<open>
  The same with the second edit 700 ms after the first, after the first timer has fired.
\<close>

definition two_editors_700ms :: "emission list" where
  "two_editors_700ms =
     (case edit_handler 1000 sock_A (edit_ev ''E1'' ''a'' 1000) init_server of
        (ems1, st1) \<Rightarrow>
          (case fire_debounce 1500 (sock_id sock_A) st1 of
             (ems2, st2) \<Rightarrow>
               (case edit_handler 1700 sock_B (edit_ev ''E1'' ''b'' 1700) st2 of
                  (ems3, st3) \<Rightarrow> ems1 @ ems2 @ ems3)))"

subsection \<open>Room sessions (handlers/collaboration.js)\<close>

text \<open>The statements on \<^verbatim>\<open>active_sessions\<close>, with \<^verbatim>\<open>NOW()\<close> as the clock value.\<close>

definition upsert_viewing :: "time \<Rightarrow> entryId \<Rightarrow> userId \<Rightarrow> sessions_table \<Rightarrow> sessions_table" where
  "upsert_viewing now e u tbl =
     (case map_of tbl (e, u) of
        None \<Rightarrow>
          AList.update (e, u) \<lparr>s_status = ''viewing'', s_joined_at = now, s_last_seen = now\<rparr> tbl
      | Some row \<Rightarrow>
          AList.update (e, u) (row\<lparr>s_status := ''viewing'', s_last_seen := now\<rparr>) tbl)"

text \<open>
  The query for the viewers of an entry has no ORDER BY, so the order of its rows is the
  store's choice: the result is the set of (user_id, status) rows of the entry.
\<close>

definition select_viewers :: "entryId \<Rightarrow> sessions_table \<Rightarrow> (userId \<times> string) set" where
  "select_viewers e tbl =
     set (map (\<lambda>(k, row). (snd k, s_status row)) (filter (\<lambda>(k, row). fst k = e) tbl))"

definition update_status :: "string \<Rightarrow> time \<Rightarrow> entryId \<Rightarrow> userId \<Rightarrow> sessions_table \<Rightarrow> sessions_table" where
  "update_status status now e u tbl =
     (case map_of tbl (e, u) of
        None \<Rightarrow> tbl
      | Some row \<Rightarrow> AList.update (e, u) (row\<lparr>s_status := status, s_last_seen := now\<rparr>) tbl)"

text \<open>
  The flags \<open>ok_upsert\<close>, \<open>ok_select\<close>, ... say whether the corresponding query of the
  function succeeds; a failed query rejects and the function throws at that point. An
  asynchronous function returns the error thrown (if any), the messages emitted up to
  then and the state.
\<close>

definition joinEntryRoom ::
  "time \<Rightarrow> bool \<Rightarrow> bool \<Rightarrow> socket \<Rightarrow> userId \<Rightarrow> entryId \<Rightarrow> server
     \<Rightarrow> js_error option \<times> emission list \<times> server" where
  "joinEntryRoom now ok_upsert ok_select sock u e st =
     (let room = room_of e;
          st1 = st\<lparr>rooms := List.insert (room, sock_id sock) (rooms st)\<rparr>
      in if \<not> ok_upsert then (Some DbError, [], st1)
         else
           let st2 = st1\<lparr>active_sessions := upsert_viewing now e u (active_sessions st1)\<rparr>
           in if \<not> ok_select then (Some DbError, [], st2)
              else
                (None,
                 [(ToSocket (sock_id sock), collab_event ''CURRENT_VIEWERS'',
                   CurrentViewers e (select_viewers e (active_sessions st2))),
                  (ToRoomExcept room (sock_id sock), collab_event ''USER_VIEWING_ENTRY'',
                   EntryPresence e u now)],
                 st2))"

definition leaveEntryRoom ::
  "time \<Rightarrow> bool \<Rightarrow> socket \<Rightarrow> userId \<Rightarrow> entryId \<Rightarrow> server
     \<Rightarrow> js_error option \<times> emission list \<times> server" where
  "leaveEntryRoom now ok_delete sock u e st =
     (let room = room_of e;
          st1 = st\<lparr>rooms := removeAll (room, sock_id sock) (rooms st)\<rparr>
      in if \<not> ok_delete then (Some DbError, [], st1)
         else
           let st2 = st1\<lparr>active_sessions := AList.delete (e, u) (active_sessions st1)\<rparr>;
               cs = (case map_of (cursorStore st2) e of
                       None \<Rightarrow> cursorStore st2
                     | Some cursors \<Rightarrow> AList.update e (AList.delete u cursors) (cursorStore st2))
           in (None,
               [(ToRoomExcept room (sock_id sock), collab_event ''ENTRY_COLLAB_LEAVE'',
                 EntryPresence e u now)],
               st2\<lparr>cursorStore := cs\<rparr>))"

definition userEditingEntry ::
  "time \<Rightarrow> bool \<Rightarrow> userId \<Rightarrow> entryId \<Rightarrow> server \<Rightarrow> js_error option \<times> emission list \<times> server" where
  "userEditingEntry now ok_update u e st =
     (if \<not> ok_update then (Some DbError, [], st)
      else
        (None,
         [(ToRoom (room_of e), collab_event ''USER_EDITING_ENTRY'', EntryPresence e u now)],
         st\<lparr>active_sessions := update_status ''editing'' now e u (active_sessions st)\<rparr>))"

definition userIdleEntry ::
  "time \<Rightarrow> bool \<Rightarrow> userId \<Rightarrow> entryId \<Rightarrow> server \<Rightarrow> js_error option \<times> emission list \<times> server" where
  "userIdleEntry now ok_update u e st =
     (if \<not> ok_update then (Some DbError, [], st)
      else
        (None,
         [(ToRoom (room_of e), collab_event ''USER_IDLE_ENTRY'', EntryPresence e u now)],
         st\<lparr>active_sessions := update_status ''idle'' now e u (active_sessions st)\<rparr>))"

text \<open>
  What the claim of idempotence says a second join does: only the last-seen time of the
  existing row changes.
\<close>

definition refresh_last_seen :: "time \<Rightarrow> entryId \<Rightarrow> userId \<Rightarrow> sessions_table \<Rightarrow> sessions_table" where
  "refresh_last_seen now e u tbl =
     (case map_of tbl (e, u) of
        None \<Rightarrow> tbl
      | Some row \<Rightarrow> AList.update (e, u) (row\<lparr>s_last_seen := now\<rparr>) tbl)"

subsection \<open>Friends cache (cache/friendsCache.js, handlers/friends.js)\<close>

text \<open>
  updateStatus returns at once when the user has no cache entry. Otherwise it calls
  \<^verbatim>\<open>filter\<close> on one property and \<^verbatim>\<open>includes\<close> and \<^verbatim>\<open>push\<close> on the other; on a property
  the object does not have, the call throws a TypeError, after the assignments made
  before it.
\<close>

definition updateStatus ::
  "userId \<Rightarrow> userId \<Rightarrow> bool \<Rightarrow> friends_cache \<Rightarrow> js_error option \<times> friends_cache" where
  "updateStatus u friendId isOnline fc =
     (case fc u of
        None \<Rightarrow> (None, fc)
      | Some cache \<Rightarrow>
          if isOnline then
            (case ce_offline cache of
               None \<Rightarrow> (Some TypeError, fc)
             | Some off \<Rightarrow>
                 let cache1 = cache\<lparr>ce_offline := Some (filter (\<lambda>i. i \<noteq> friendId) off)\<rparr> in
                 (case ce_online cache1 of
                    None \<Rightarrow> (Some TypeError, fc(u \<mapsto> cache1))
                  | Some on \<Rightarrow>
                      if friendId \<in> set on then (None, fc(u \<mapsto> cache1))
                      else (None, fc(u \<mapsto> cache1\<lparr>ce_online := Some (on @ [friendId])\<rparr>))))
          else
            (case ce_online cache of
               None \<Rightarrow> (Some TypeError, fc)
             | Some on \<Rightarrow>
                 let cache1 = cache\<lparr>ce_online := Some (filter (\<lambda>i. i \<noteq> friendId) on)\<rparr> in
                 (case ce_offline cache1 of
                    None \<Rightarrow> (Some TypeError, fc(u \<mapsto> cache1))
                  | Some off \<Rightarrow>
                      if friendId \<in> set off then (None, fc(u \<mapsto> cache1))
                      else (None, fc(u \<mapsto> cache1\<lparr>ce_offline := Some (off @ [friendId])\<rparr>)))))"

text \<open>
  sendFriendsList answers from the cache when the user has an entry. Otherwise it joins
  the user's friends with their connection rows, splits them into online and offline,
  stores the object with the two properties \<^verbatim>\<open>onlineFriends\<close> and \<^verbatim>\<open>offlineFriends\<close>
  and sends it.
\<close>

definition sendFriendsList ::
  "time \<Rightarrow> bool \<Rightarrow> socket \<Rightarrow> userId \<Rightarrow> server \<Rightarrow> js_error option \<times> emission list \<times> server" where
  "sendFriendsList now ok_select sock u st =
     (case friendsCache st u of
        Some cached \<Rightarrow>
          (None, [(ToSocket (sock_id sock), social_event ''FRIENDS_LIST'',
                   FriendsList cached now)], st)
      | None \<Rightarrow>
          if \<not> ok_select then (Some DbError, [], st)
          else
            let rows = map (\<lambda>(user_id, friend_id).
                              (friend_id, (case ws_connections st friend_id of
                                             None \<Rightarrow> False | Some w \<Rightarrow> w_online w)))
                         (filter (\<lambda>(user_id, friend_id). user_id = u) (friends st));
                result = \<lparr>ce_onlineFriends = Some (map fst (filter snd rows)),
                          ce_offlineFriends = Some (map fst (filter (\<lambda>r. \<not> snd r) rows)),
                          ce_online = None, ce_offline = None\<rparr>
            in (None,
                [(ToSocket (sock_id sock), social_event ''FRIENDS_LIST'',
                  FriendsList result now)],
                st\<lparr>friendsCache := (friendsCache st)(u \<mapsto> result)\<rparr>))"

subsection \<open>Presence (handlers/presence.js)\<close>

text \<open>
  The loop over the users who list \<open>u\<close> as a friend: update the cache entry of each, then
  notify the room named after that user. An exception of updateStatus ends the loop.
\<close>

fun notify_friends ::
  "time \<Rightarrow> bool \<Rightarrow> userId \<Rightarrow> userId list \<Rightarrow> friends_cache
     \<Rightarrow> js_error option \<times> emission list \<times> friends_cache" where
  "notify_friends now isOnline u [] fc = (None, [], fc)"
| "notify_friends now isOnline u (r # rs) fc =
     (case updateStatus r u isOnline fc of
        (Some err, fc1) \<Rightarrow> (Some err, [], fc1)
      | (None, fc1) \<Rightarrow>
          (case notify_friends now isOnline u rs fc1 of
             (res, ems, fc2) \<Rightarrow>
               (res,
                (ToRoom r,
                 social_event (if isOnline then ''FRIEND_ONLINE'' else ''FRIEND_OFFLINE''),
                 FriendPresence u now) # ems,
                fc2)))"

definition friend_of_rows :: "userId \<Rightarrow> (userId \<times> userId) list \<Rightarrow> userId list" where
  "friend_of_rows u tbl = map fst (filter (\<lambda>(user_id, friend_id). friend_id = u) tbl)"

definition setUserOnline ::
  "time \<Rightarrow> bool \<Rightarrow> bool \<Rightarrow> userId \<Rightarrow> socketId \<Rightarrow> server
     \<Rightarrow> js_error option \<times> emission list \<times> server" where
  "setUserOnline now ok_upsert ok_select u socketId st =
     (if \<not> ok_upsert then (Some DbError, [], st)
      else
        let st1 = st\<lparr>ws_connections := (ws_connections st)(u \<mapsto>
                       \<lparr>w_socket_id = socketId, w_online = True, w_last_seen = now\<rparr>)\<rparr>
        in if \<not> ok_select then (Some DbError, [], st1)
           else
             (case notify_friends now True u (friend_of_rows u (friends st1))
                     (friendsCache st1) of
                (res, ems, fc) \<Rightarrow> (res, ems, st1\<lparr>friendsCache := fc\<rparr>)))"

definition setUserOffline ::
  "time \<Rightarrow> bool \<Rightarrow> bool \<Rightarrow> userId \<Rightarrow> server \<Rightarrow> js_error option \<times> emission list \<times> server" where
  "setUserOffline now ok_update ok_select u st =
     (if \<not> ok_update then (Some DbError, [], st)
      else
        let st1 = st\<lparr>ws_connections :=
                       (case ws_connections st u of
                          None \<Rightarrow> ws_connections st
                        | Some w \<Rightarrow> (ws_connections st)(u \<mapsto>
                                      w\<lparr>w_online := False, w_last_seen := now\<rparr>))\<rparr>
        in if \<not> ok_select then (Some DbError, [], st1)
           else
             (case notify_friends now False u (friend_of_rows u (friends st1))
                     (friendsCache st1) of
                (res, ems, fc) \<Rightarrow> (res, ems, st1\<lparr>friendsCache := fc\<rparr>)))"

subsection \<open>Disconnect (server.js)\<close>

text \<open>
  The loop over the cursor store: for each entry, in insertion order, where the user has a
  cursor it is deleted and a clear message is broadcast to the entry's room.
\<close>

fun clear_user_cursors :: "socket \<Rightarrow> userId \<Rightarrow> cursor_store \<Rightarrow> emission list \<times> cursor_store" where
  "clear_user_cursors sock u [] = ([], [])"
| "clear_user_cursors sock u ((e, cursors) # rest) =
     (case clear_user_cursors sock u rest of
        (ems, rest') \<Rightarrow>
          if map_of cursors u \<noteq> None
          then ((ToRoomExcept (room_of e) (sock_id sock), collab_event ''ENTRY_CURSOR_CLEAR'',
                 CursorCleared u e) # ems,
                (e, AList.delete u cursors) # rest')
          else (ems, (e, cursors) # rest'))"

text \<open>
  The disconnect handler. Socket.IO has removed the socket from its rooms before the
  handler runs. The handler removes the user from \<^verbatim>\<open>connectedUsers\<close>; then, inside one
  \<^verbatim>\<open>try\<close> block, it awaits setUserOffline, clears the user's cursors and deletes the
  user's session rows; the \<^verbatim>\<open>catch\<close> only logs.
\<close>

definition disconnect_handler ::
  "time \<Rightarrow> bool \<Rightarrow> bool \<Rightarrow> bool \<Rightarrow> socket \<Rightarrow> server \<Rightarrow> emission list \<times> server" where
  "disconnect_handler now ok_update ok_select ok_delete sock st =
     (let u = sock_userId sock;
          st0 = st\<lparr>rooms := filter (\<lambda>(room, sid). sid \<noteq> sock_id sock) (rooms st),
                   connectedUsers := (connectedUsers st)(u := None)\<rparr>
      in (case setUserOffline now ok_update ok_select u st0 of
            (Some err, ems, st1) \<Rightarrow> (ems, st1)
          | (None, ems, st1) \<Rightarrow>
              (case clear_user_cursors sock u (cursorStore st1) of
                 (ems2, cs) \<Rightarrow>
                   let st2 = st1\<lparr>cursorStore := cs\<rparr> in
                   if \<not> ok_delete then (ems @ ems2, st2)
                   else (ems @ ems2,
                         st2\<lparr>active_sessions :=
                               filter (\<lambda>(k, row). snd k \<noteq> u) (active_sessions st2)\<rparr>))))"

subsection \<open>Scenarios\<close>

text \<open>The parts of an asynchronous function's result.\<close>

definition thrown :: "js_error option \<times> emission list \<times> server \<Rightarrow> js_error option" where
  "thrown r = fst r"

definition emitted :: "js_error option \<times> emission list \<times> server \<Rightarrow> emission list" where
  "emitted r = fst (snd r)"

definition state_of :: "js_error option \<times> emission list \<times> server \<Rightarrow> server" where
  "state_of r = snd (snd r)"

text \<open>
  User A joins entry E1, user B joins it, and B moves the cursor to (10, 5); the store
  answers every query.
\<close>

definition scenario_room :: server where
  "scenario_room =
     snd (cursor_move_handler 300 sock_B (Some ''E1'') (Some (10, 5))
            (state_of (joinEntryRoom 200 True True sock_B ''B'' ''E1''
               (state_of (joinEntryRoom 100 True True sock_A ''A'' ''E1'' init_server)))))"

text \<open>
  User A lists B as a friend; B is offline; A's friends list is sent, which fills the cache
  entry of A.
\<close>

definition scenario_friends :: server where
  "scenario_friends =
     state_of (sendFriendsList 100 True sock_A ''A'' (init_server\<lparr>friends := [(''A'', ''B'')]\<rparr>))"

text \<open>User A joins entry E1 and starts editing.\<close>

definition scenario_editing :: server where
  "scenario_editing =
     state_of (userEditingEntry 200 True ''A'' ''E1''
       (state_of (joinEntryRoom 100 True True sock_A ''A'' ''E1'' init_server)))"

section \<open>Properties\<close>

subsection \<open>Rate limiter\<close>

lemma checkRateLimit_opens:
  "opens_window t u m \<Longrightarrow>
     checkRateLimit t u m = (True, m(u \<mapsto> \<lparr>count = 1, lastReset = t\<rparr>))"
  by (auto simp: opens_window_def checkRateLimit_def RATE_LIMIT_def windowMs_def Let_def
           split: option.splits)

lemma checkRateLimit_same_window:
  assumes "m u = Some \<lparr>count = k, lastReset = t0\<rparr>" and "t - t0 \<le> windowMs"
  shows "checkRateLimit t u m = (k < RATE_LIMIT, m(u \<mapsto> \<lparr>count = Suc k, lastReset = t0\<rparr>))"
  using assms by (auto simp: checkRateLimit_def Let_def)

lemma checkRateLimits_same_window:
  assumes "m u = Some \<lparr>count = k, lastReset = t0\<rparr>" and "\<forall>t\<in>set ts. t - t0 \<le> windowMs"
  shows "fst (checkRateLimits ts u m) = map (\<lambda>i. k + i < RATE_LIMIT) [0..<length ts] \<and>
         snd (checkRateLimits ts u m) u = Some \<lparr>count = k + length ts, lastReset = t0\<rparr>"
  using assms
proof (induction ts arbitrary: k m)
  case Nil
  then show ?case by simp
next
  case (Cons t ts)
  let ?m' = "m(u \<mapsto> \<lparr>count = Suc k, lastReset = t0\<rparr>)"
  have step: "checkRateLimit t u m = (k < RATE_LIMIT, ?m')"
    using Cons.prems by (simp add: checkRateLimit_same_window)
  have ih: "fst (checkRateLimits ts u ?m') = map (\<lambda>i. Suc k + i < RATE_LIMIT) [0..<length ts] \<and>
            snd (checkRateLimits ts u ?m') u = Some \<lparr>count = Suc k + length ts, lastReset = t0\<rparr>"
    using Cons.prems by (intro Cons.IH) simp_all
  have shift: "map (\<lambda>i. k + i < RATE_LIMIT) [0..<Suc (length ts)] =
               (k < RATE_LIMIT) # map (\<lambda>i. Suc k + i < RATE_LIMIT) [0..<length ts]"
    by (simp add: upt_conv_Cons map_Suc_upt [symmetric] del: upt_Suc)
  show ?case
    using ih shift by (auto simp: step split: prod.splits)
qed

text \<open>
  C9. The first check of a window and the \<open>RATE_LIMIT\<close> checks that follow it inside the
  window (no more than \<open>windowMs\<close> after the first): the first \<open>RATE_LIMIT\<close> of these
  \<open>RATE_LIMIT + 1\<close> checks return true and the last returns false, as a plain boolean.
  A later check, more than \<open>windowMs\<close> after the window started, resets the record to
  count 1 with the new start time and is admitted.
\<close>

theorem rate_limit_window:
  assumes "opens_window t0 u m"
    and "length ts = RATE_LIMIT"
    and "\<forall>t\<in>set ts. t - t0 \<le> windowMs"
    and "t' - t0 > windowMs"
  shows "fst (checkRateLimits (t0 # ts) u m) = replicate RATE_LIMIT True @ [False] \<and>
         checkRateLimit t' u (snd (checkRateLimits (t0 # ts) u m)) =
           (True, (snd (checkRateLimits (t0 # ts) u m))(u \<mapsto> \<lparr>count = 1, lastReset = t'\<rparr>))"
proof -
  let ?m1 = "m(u \<mapsto> \<lparr>count = 1, lastReset = t0\<rparr>)"
  have first: "checkRateLimit t0 u m = (True, ?m1)"
    using assms(1) by (rule checkRateLimit_opens)
  have rest: "fst (checkRateLimits ts u ?m1) = map (\<lambda>i. 1 + i < RATE_LIMIT) [0..<length ts] \<and>
              snd (checkRateLimits ts u ?m1) u = Some \<lparr>count = 1 + length ts, lastReset = t0\<rparr>"
    using assms(3) by (intro checkRateLimits_same_window) simp_all
  have results: "True # map (\<lambda>i. 1 + i < RATE_LIMIT) [0..<length ts] =
                 replicate RATE_LIMIT True @ [False]"
    using assms(2) by (simp add: RATE_LIMIT_def upt_rec eval_nat_numeral)
  have all: "checkRateLimits (t0 # ts) u m =
               (True # fst (checkRateLimits ts u ?m1), snd (checkRateLimits ts u ?m1))"
    by (simp add: first split: prod.splits)
  have reopen: "opens_window t' u (snd (checkRateLimits ts u ?m1))"
    using rest assms(4) by (simp add: opens_window_def)
  show ?thesis
    unfolding all fst_conv snd_conv
    using rest results checkRateLimit_opens [OF reopen] by simp
qed

theorem rate_limit_window_witness:
  "fst (checkRateLimits (5000 # [5000, 5100, 5200, 5300, 5400, 5500, 5600, 5700, 5800, 6000])
          ''alice'' Map.empty)
     = replicate RATE_LIMIT True @ [False] \<and>
   fst (checkRateLimit 6001 ''alice''
          (snd (checkRateLimits
                  (5000 # [5000, 5100, 5200, 5300, 5400, 5500, 5600, 5700, 5800, 6000])
                  ''alice'' Map.empty))) = True"
  using rate_limit_window [of 5000 "''alice''" Map.empty
      "[5000, 5100, 5200, 5300, 5400, 5500, 5600, 5700, 5800, 6000]" 6001]
  by (simp add: opens_window_def RATE_LIMIT_def windowMs_def)

subsection \<open>Event names\<close>

lemma collab_event_names:
  "collab_event ''ENTRY_CURSOR_MOVE'' = Some ''entry_cursor_move''"
  "collab_event ''ENTRY_CURSOR_CLEAR'' = Some ''entry_cursor_clear''"
  "collab_event ''CURRENT_VIEWERS'' = Some ''current_viewers''"
  "collab_event ''ENTRY_COLLAB_LEAVE'' = Some ''entry_collab_leave''"
  "collab_event ''USER_VIEWING_ENTRY'' = Some ''user_viewing_entry''"
  "collab_event ''USER_EDITING_ENTRY'' = Some ''user_editing_entry''"
  "collab_event ''USER_IDLE_ENTRY'' = Some ''user_idle_entry''"
  "collab_event ''ENTRY_EDIT'' = Some ''entry_edit''"
  "collab_event ''CONFLICT_DETECTED'' = None"
  by (simp_all add: collab_event_def DIARY_COLLAB_WS_EVENTS_def)

lemma social_event_names:
  "social_event ''FRIEND_ONLINE'' = Some ''friend_online''"
  "social_event ''FRIEND_OFFLINE'' = Some ''friend_offline''"
  "social_event ''FRIENDS_LIST'' = Some ''friends_list''"
  by (simp_all add: social_event_def DIARY_SOCIAL_WS_EVENTS_def)

subsection \<open>Cursor throttle\<close>

lemma cursor_move_handler_accepted:
  assumes "e \<noteq> []"
    and "now - (case cursorThrottleMap st (sock_id sock) of None \<Rightarrow> 0 | Some t \<Rightarrow> t) \<ge> 100"
  shows "cursor_move_handler now sock (Some e) (Some p) st =
           ([(ToRoomExcept (room_of e) (sock_id sock), Some ''entry_cursor_move'',
              CursorMoved \<lparr>c_userId = sock_userId sock, c_position = p, c_timestamp = now\<rparr>)],
            st\<lparr>cursorThrottleMap := (cursorThrottleMap st)(sock_id sock \<mapsto> now),
               cursorStore := snd (handleCursorMove now sock (sock_userId sock) e p
                                     (cursorStore st))\<rparr>)"
  using assms
  by (simp add: cursor_move_handler_def falsy_str_def handleCursorMove_def Let_def
        collab_event_names)

lemma cursor_move_handler_throttled:
  assumes "cursorThrottleMap st (sock_id sock) = Some t0" and "now - t0 < 100"
  shows "cursor_move_handler now sock entryId pos st = ([], st)"
  using assms by (simp add: cursor_move_handler_def)

lemma cursor_moves_throttled:
  assumes "cursorThrottleMap st (sock_id sock) = Some t0"
    and "\<forall>ev\<in>set evs. fst ev - t0 < 100"
  shows "cursor_moves sock evs st = ([], st)"
  using assms
proof (induction evs)
  case Nil
  then show ?case by simp
next
  case (Cons ev evs)
  obtain now entryId pos where ev: "ev = (now, entryId, pos)"
    by (cases ev) auto
  have "cursor_move_handler now sock entryId pos st = ([], st)"
    using Cons.prems ev by (intro cursor_move_handler_throttled [of _ _ t0]) simp_all
  then show ?case
    using Cons ev by simp
qed

text \<open>
  C1, as the code has it. The throttle keeps the leading sample: when a cursor event of a
  socket is accepted (it names an entry and a position, and at least 100 ms have passed
  since the socket's last accepted cursor event) and further cursor events of the same
  socket, for any entry, arrive less than 100 ms after it, then the whole sequence
  broadcasts exactly one message, the position of the first event stamped with its
  arrival time, and leaves the state that the first event alone leaves: the later
  samples are dropped without any message or error.
\<close>

theorem cursor_throttle_keeps_first:
  assumes "e \<noteq> []"
    and "now - (case cursorThrottleMap st (sock_id sock) of None \<Rightarrow> 0 | Some t \<Rightarrow> t) \<ge> 100"
    and "\<forall>ev\<in>set evs. fst ev - now < 100"
  shows "cursor_moves sock ((now, Some e, Some p) # evs) st =
           cursor_move_handler now sock (Some e) (Some p) st \<and>
         fst (cursor_moves sock ((now, Some e, Some p) # evs) st) =
           [(ToRoomExcept (room_of e) (sock_id sock), Some ''entry_cursor_move'',
             CursorMoved \<lparr>c_userId = sock_userId sock, c_position = p, c_timestamp = now\<rparr>)]"
proof -
  let ?st1 = "snd (cursor_move_handler now sock (Some e) (Some p) st)"
  have first: "cursor_move_handler now sock (Some e) (Some p) st =
      ([(ToRoomExcept (room_of e) (sock_id sock), Some ''entry_cursor_move'',
         CursorMoved \<lparr>c_userId = sock_userId sock, c_position = p, c_timestamp = now\<rparr>)],
       ?st1)"
    using cursor_move_handler_accepted [OF assms(1,2)] by simp
  have "cursorThrottleMap ?st1 (sock_id sock) = Some now"
    using cursor_move_handler_accepted [OF assms(1,2)] by simp
  then have rest: "cursor_moves sock evs ?st1 = ([], ?st1)"
    using assms(3) by (rule cursor_moves_throttled)
  have "cursor_moves sock ((now, Some e, Some p) # evs) st =
          (case cursor_move_handler now sock (Some e) (Some p) st of
             (ems, st1) \<Rightarrow> (case cursor_moves sock evs st1 of (ems', st2) \<Rightarrow> (ems @ ems', st2)))"
    by simp
  also have "\<dots> = cursor_move_handler now sock (Some e) (Some p) st"
    by (subst (1 2) first) (simp add: rest)
  finally have whole: "cursor_moves sock ((now, Some e, Some p) # evs) st =
      cursor_move_handler now sock (Some e) (Some p) st" .
  have "fst (cursor_move_handler now sock (Some e) (Some p) st) =
      [(ToRoomExcept (room_of e) (sock_id sock), Some ''entry_cursor_move'',
        CursorMoved \<lparr>c_userId = sock_userId sock, c_position = p, c_timestamp = now\<rparr>)]"
    by (subst first) simp
  then show ?thesis
    unfolding whole by simp
qed

theorem cursor_throttle_keeps_first_witness:
  "fst (cursor_moves sock_B
          ((1000, Some ''E1'', Some (1, 1)) #
           [(1040, Some ''E1'', Some (2, 2)), (1090, Some ''E2'', Some (3, 3))]) init_server) =
     [(ToRoomExcept (room_of ''E1'') (sock_id sock_B), Some ''entry_cursor_move'',
       CursorMoved \<lparr>c_userId = sock_userId sock_B, c_position = (1, 1), c_timestamp = 1000\<rparr>)]"
proof -
  have h1: "''E1'' \<noteq> []"
    by simp
  have h2: "1000 - (case cursorThrottleMap init_server (sock_id sock_B) of
                      None \<Rightarrow> 0 | Some t \<Rightarrow> t) \<ge> 100"
    by (simp add: init_server_def)
  have h3: "\<forall>ev\<in>set [(1040 :: time, Some ''E1'', Some (2 :: int, 2 :: int)),
                        (1090, Some ''E2'', Some (3, 3))]. fst ev - 1000 < 100"
    by simp
  show ?thesis
    by (rule conjunct2 [OF cursor_throttle_keeps_first [OF h1 h2 h3]])
qed

text \<open>
  The claim as written fails: of two cursor events 50 ms apart, the position that is
  broadcast is the first one, and the last one is dropped.
\<close>

theorem cursor_throttle_last_counterexample:
  "fst (cursor_moves sock_B
          [(1000, Some ''E1'', Some (1, 1)), (1050, Some ''E1'', Some (2, 2))] init_server) =
     [(ToRoomExcept ''entry_E1'' ''sB'', Some ''entry_cursor_move'',
       CursorMoved \<lparr>c_userId = ''B'', c_position = (1, 1), c_timestamp = 1000\<rparr>)]"
  by (simp add: cursor_move_handler_def handleCursorMove_def falsy_str_def Let_def
        init_server_def sock_B_def room_of_def collab_event_names)


subsection \<open>Edit pipeline\<close>

lemma relayed_edits_append: "relayed_edits (xs @ ys) = relayed_edits xs @ relayed_edits ys"
  by (induction xs rule: relayed_edits.induct) simp_all

lemma run_due_timer_not_due:
  assumes "case debounceMap st sid of None \<Rightarrow> True | Some pe \<Rightarrow> now < pe_fire_at pe"
  shows "run_due_timer now sid st = ([], st)"
  using assms by (auto simp: run_due_timer_def split: option.splits)

lemma edit_handler_admitted:
  assumes "\<not> falsy_str (ev_entryId payload)"
    and "\<not> falsy_num (ev_timestamp payload)"
    and "fst (checkRateLimit now (sock_userId sock) (userEventCounts st))"
  shows "relayed_edits (fst (edit_handler now sock payload st)) = [] \<and>
         snd (edit_handler now sock payload st) =
           st\<lparr>userEventCounts := snd (checkRateLimit now (sock_userId sock) (userEventCounts st)),
              debounceMap := (debounceMap st)(sock_id sock := pending_of sock now payload)\<rparr>"
  using assms
  by (auto simp: edit_handler_def falsy_str_def falsy_num_def pending_of_def Let_def
           split: option.splits prod.splits)

lemma fire_debounce_due:
  assumes "debounceMap st (sock_id sock) = pending_of sock now payload"
    and "\<not> falsy_str (ev_entryId payload)"
    and "now + 500 \<le> tf"
  shows "relayed_edits (fst (fire_debounce tf (sock_id sock) st)) = relay_of sock payload tf"
  using assms
  by (auto simp: fire_debounce_def pending_of_def relay_of_def falsy_str_def Let_def
        collab_event_names split: option.splits)

lemma edit_burst_step:
  assumes "case debounceMap st (sock_id sock) of None \<Rightarrow> True | Some pe \<Rightarrow> now < pe_fire_at pe"
    and "\<not> falsy_str (ev_entryId payload)"
    and "\<not> falsy_num (ev_timestamp payload)"
    and "fst (checkRateLimit now (sock_userId sock) (userEventCounts st))"
  shows "edit_burst sock ((now, payload) # evs) st =
           (fst (edit_handler now sock payload st) @
              fst (edit_burst sock evs (snd (edit_handler now sock payload st))),
            snd (edit_burst sock evs (snd (edit_handler now sock payload st))))"
  by (simp add: run_due_timer_not_due [OF assms(1)] split: prod.splits)

lemma edit_burst_pending:
  assumes "case debounceMap st (sock_id sock) of None \<Rightarrow> True | Some pe \<Rightarrow> now < pe_fire_at pe"
    and "edits_admitted (sock_userId sock) ((now, payload) # evs) (userEventCounts st)"
    and "within_quiet_period (now # map fst evs)"
  shows "relayed_edits (fst (edit_burst sock ((now, payload) # evs) st)) = [] \<and>
         debounceMap (snd (edit_burst sock ((now, payload) # evs) st)) (sock_id sock) =
           pending_of sock (fst (last ((now, payload) # evs))) (snd (last ((now, payload) # evs)))"
  using assms
proof (induction evs arbitrary: st now payload)
  case Nil
  have valid: "\<not> falsy_str (ev_entryId payload)" "\<not> falsy_num (ev_timestamp payload)"
      "fst (checkRateLimit now (sock_userId sock) (userEventCounts st))"
    using Nil.prems(2) by simp_all
  show ?case
    unfolding edit_burst_step [OF Nil.prems(1) valid]
    using edit_handler_admitted [OF valid] by simp
next
  case (Cons ev evs)
  obtain now' payload' where ev: "ev = (now', payload')"
    by (cases ev) auto
  have valid: "\<not> falsy_str (ev_entryId payload)" "\<not> falsy_num (ev_timestamp payload)"
      "fst (checkRateLimit now (sock_userId sock) (userEventCounts st))"
    using Cons.prems(2) by simp_all
  let ?st1 = "snd (edit_handler now sock payload st)"
  have st1: "?st1 = st\<lparr>userEventCounts :=
                 snd (checkRateLimit now (sock_userId sock) (userEventCounts st)),
               debounceMap := (debounceMap st)(sock_id sock := pending_of sock now payload)\<rparr>"
    and norelay: "relayed_edits (fst (edit_handler now sock payload st)) = []"
    using edit_handler_admitted [OF valid] by simp_all
  have gap: "now' - now < 500" and quiet: "within_quiet_period (now' # map fst evs)"
    using Cons.prems(3) ev by simp_all
  have p1: "case debounceMap ?st1 (sock_id sock) of None \<Rightarrow> True | Some pe \<Rightarrow> now' < pe_fire_at pe"
    using gap valid(1) by (simp add: st1 pending_of_def falsy_str_def split: option.splits)
  have p2: "edits_admitted (sock_userId sock) ((now', payload') # evs) (userEventCounts ?st1)"
    using Cons.prems(2) ev by (simp add: st1)
  have ih: "relayed_edits (fst (edit_burst sock ((now', payload') # evs) ?st1)) = [] \<and>
         debounceMap (snd (edit_burst sock ((now', payload') # evs) ?st1)) (sock_id sock) =
           pending_of sock (fst (last ((now', payload') # evs))) (snd (last ((now', payload') # evs)))"
    by (rule Cons.IH [OF p1 p2 quiet])
  show ?case
    unfolding ev edit_burst_step [OF Cons.prems(1) valid]
    using ih norelay by (simp add: relayed_edits_append)
qed

lemma edits_admitted_last:
  "evs \<noteq> [] \<Longrightarrow> edits_admitted u evs m \<Longrightarrow> \<not> falsy_str (ev_entryId (snd (last evs)))"
proof (induction evs arbitrary: m)
  case Nil
  then show ?case by simp
next
  case (Cons ev evs)
  obtain now payload where ev: "ev = (now, payload)"
    by (cases ev) auto
  show ?case
  proof (cases "evs = []")
    case True
    then show ?thesis
      using Cons.prems ev by simp
  next
    case False
    have "edits_admitted u evs (snd (checkRateLimit now u m))"
      using Cons.prems ev by simp
    from Cons.IH [OF False this] show ?thesis
      using False by simp
  qed
qed

text \<open>
  A burst of admitted events during which no timer of the socket comes due: nothing is
  relayed during the burst, and the timer that fires afterwards relays the last event.
\<close>

lemma edit_burst_relays_last:
  assumes "case debounceMap st (sock_id sock) of
             None \<Rightarrow> True | Some pe \<Rightarrow> fst (hd evs) < pe_fire_at pe"
    and "evs \<noteq> []"
    and "edits_admitted (sock_userId sock) evs (userEventCounts st)"
    and "within_quiet_period (map fst evs)"
    and "fst (last evs) + 500 \<le> tf"
  shows "relayed_edits (fst (edit_burst sock evs st)) = [] \<and>
         relayed_edits (fst (fire_debounce tf (sock_id sock) (snd (edit_burst sock evs st)))) =
           relay_of sock (snd (last evs)) tf \<and>
         length (relay_of sock (snd (last evs)) tf) = 1"
proof -
  obtain now payload rest where evs: "evs = (now, payload) # rest"
    using assms(2) by (cases evs) auto
  have idle: "case debounceMap st (sock_id sock) of None \<Rightarrow> True | Some pe \<Rightarrow> now < pe_fire_at pe"
    using assms(1) by (simp add: evs split: option.splits)
  have burst: "relayed_edits (fst (edit_burst sock evs st)) = [] \<and>
      debounceMap (snd (edit_burst sock evs st)) (sock_id sock) =
        pending_of sock (fst (last evs)) (snd (last evs))"
    unfolding evs
    using assms(3,4) by (intro edit_burst_pending [OF idle]) (simp_all add: evs)
  have named: "\<not> falsy_str (ev_entryId (snd (last evs)))"
    using assms(2,3) by (rule edits_admitted_last)
  have fired: "relayed_edits (fst (fire_debounce tf (sock_id sock) (snd (edit_burst sock evs st)))) =
      relay_of sock (snd (last evs)) tf"
    using burst named assms(5) by (intro fire_debounce_due [of _ _ "fst (last evs)"]) simp_all
  have "length (relay_of sock (snd (last evs)) tf) = 1"
    using named by (simp add: relay_of_def falsy_str_def split: option.splits)
  then show ?thesis
    using burst fired by simp
qed


lemmas eval_defs = edit_handler_def fire_debounce_def run_due_timer_def checkRateLimit_def
  falsy_str_def
  falsy_num_def Let_def init_server_def sock_A_def sock_B_def edit_ev_def room_of_def
  RATE_LIMIT_def windowMs_def collab_event_names

lemma ten_edits_state:
  "snd (edit_burst sock_A ten_edits init_server) =
     init_server\<lparr>userEventCounts := [''A'' \<mapsto> \<lparr>count = 10, lastReset = 1000\<rparr>],
       debounceMap := [''sA'' \<mapsto> \<lparr>pe_fire_at = 1590, pe_entryId = ''E1'',
          pe_content = Some ''v10'', pe_operation = Some ''update'',
          pe_cursorPosition = None, pe_userId = ''A''\<rparr>]\<rparr>"
  by (simp add: ten_edits_def eval_defs eval_nat_numeral)

text \<open>
  C2, on the code. Two users edit the same entry with client timestamps 50 ms apart. The
  last-edit record of the entry is written only when a timer fires, 500 ms after the
  edit, so the second edit finds no record: the only messages are the two relayed edits,
  and no conflict notice is sent to anyone.
\<close>

theorem two_editors_50ms_no_notice:
  "two_editors_50ms =
     [(ToRoomExcept ''entry_E1'' ''sA'', Some ''entry_edit'',
       EditRelayed \<lparr>ed_entryId = ''E1'', ed_content = Some ''a'', ed_operation = Some ''update'',
         ed_cursorPosition = None, ed_userId = ''A'', ed_timestamp = 1500\<rparr>),
      (ToRoomExcept ''entry_E1'' ''sB'', Some ''entry_edit'',
       EditRelayed \<lparr>ed_entryId = ''E1'', ed_content = Some ''b'', ed_operation = Some ''update'',
         ed_cursorPosition = None, ed_userId = ''B'', ed_timestamp = 1550\<rparr>)] \<and>
   conflict_notices two_editors_50ms = []"
  by (simp add: two_editors_50ms_def eval_defs)

text \<open>
  With the second edit 700 ms after the first, the record written at 1500 is 200 ms from
  the second client timestamp, and a notice goes to the second socket. Its event name is
  read from a key that the table of event names does not have.
\<close>

lemma two_editors_700ms_notice:
  "conflict_notices two_editors_700ms =
     [(ToSocket ''sB'', None, ConflictNotice ''E1'' ''last-write-wins'' 1700)]"
  by (simp add: two_editors_700ms_def eval_defs)


lemma edit_burst_append:
  "edit_burst sock (xs @ ys) st =
     (fst (edit_burst sock xs st) @ fst (edit_burst sock ys (snd (edit_burst sock xs st))),
      snd (edit_burst sock ys (snd (edit_burst sock xs st))))"
  by (induction xs arbitrary: st) (auto split: prod.splits)

text \<open>
  A dropped event relays nothing and leaves every pending timer and every last-edit record
  as it was, so whatever a timer relays later is what it would have relayed without the
  event.
\<close>

lemma edit_handler_dropped:
  assumes "edit_dropped now sock payload st"
  shows "relayed_edits (fst (edit_handler now sock payload st)) = [] \<and>
         debounceMap (snd (edit_handler now sock payload st)) = debounceMap st \<and>
         lastEditMap (snd (edit_handler now sock payload st)) = lastEditMap st"
  using assms
  by (auto simp: edit_dropped_def edit_handler_def Let_def falsy_str_def falsy_num_def
        split: option.splits prod.splits)

lemma fire_debounce_reads:
  assumes "debounceMap st' = debounceMap st"
  shows "fst (fire_debounce tf sid st') = fst (fire_debounce tf sid st)"
  using assms by (simp add: fire_debounce_def Let_def split: option.splits)

lemma fire_debounce_pending:
  assumes "debounceMap st sid = Some pe"
  shows "relayed_edits (fst (fire_debounce tf sid st)) =
           (if tf < pe_fire_at pe then [] else relay_of_pending sid pe tf)"
  using assms
  by (simp add: fire_debounce_def relay_of_pending_def Let_def collab_event_names)

text \<open>
  C8, as the code has it. A socket sends a burst of edit events, each naming an entry and a
  timestamp and each admitted by the rate limiter, each arriving less than 500 ms after
  the one before, and no earlier timer of the socket comes due before the first. During
  the burst nothing is relayed. When the timer fires, 500 ms or more after the last
  event, exactly one edit is relayed: to the room of the last event, with the content,
  operation and cursor position of the last event, the user of the socket, and the time
  of firing as its timestamp. An event that lacks entryId or timestamp, or that the rate
  limiter rejects, relays nothing, leaves the pending timers and the last-edit records
  unchanged, and changes nothing in what any timer relays afterwards.
\<close>

theorem debounce_burst_relays_last_admitted:
  "(evs \<noteq> [] \<and>
    (case debounceMap st (sock_id sock) of
       None \<Rightarrow> True | Some pe \<Rightarrow> fst (hd evs) < pe_fire_at pe) \<and>
    edits_admitted (sock_userId sock) evs (userEventCounts st) \<and>
    within_quiet_period (map fst evs) \<and> fst (last evs) + 500 \<le> tf \<longrightarrow>
      relayed_edits (fst (edit_burst sock evs st)) = [] \<and>
      relayed_edits (fst (fire_debounce tf (sock_id sock) (snd (edit_burst sock evs st)))) =
        relay_of sock (snd (last evs)) tf \<and>
      length (relay_of sock (snd (last evs)) tf) = 1) \<and>
   (edit_dropped now sock payload st \<longrightarrow>
      relayed_edits (fst (edit_handler now sock payload st)) = [] \<and>
      debounceMap (snd (edit_handler now sock payload st)) = debounceMap st \<and>
      lastEditMap (snd (edit_handler now sock payload st)) = lastEditMap st \<and>
      fst (fire_debounce tf sid (snd (edit_handler now sock payload st))) =
        fst (fire_debounce tf sid st))"
proof -
  have dropped: "edit_dropped now sock payload st \<longrightarrow>
      relayed_edits (fst (edit_handler now sock payload st)) = [] \<and>
      debounceMap (snd (edit_handler now sock payload st)) = debounceMap st \<and>
      lastEditMap (snd (edit_handler now sock payload st)) = lastEditMap st \<and>
      fst (fire_debounce tf sid (snd (edit_handler now sock payload st))) =
        fst (fire_debounce tf sid st)"
  proof
    assume d: "edit_dropped now sock payload st"
    have same: "debounceMap (snd (edit_handler now sock payload st)) = debounceMap st"
      using edit_handler_dropped [OF d] by simp
    show "relayed_edits (fst (edit_handler now sock payload st)) = [] \<and>
      debounceMap (snd (edit_handler now sock payload st)) = debounceMap st \<and>
      lastEditMap (snd (edit_handler now sock payload st)) = lastEditMap st \<and>
      fst (fire_debounce tf sid (snd (edit_handler now sock payload st))) =
        fst (fire_debounce tf sid st)"
      using edit_handler_dropped [OF d] fire_debounce_reads [OF same] by simp
  qed
  show ?thesis
    using dropped edit_burst_relays_last [where st = st and sock = sock and evs = evs and tf = tf]
    by blast
qed


theorem debounce_burst_relays_last_admitted_witness:
  "relayed_edits (fst (edit_burst sock_A
      [(1000, edit_ev ''E1'' ''v1'' 1000), (1400, edit_ev ''E1'' ''v2'' 1400)] init_server)) = [] \<and>
   relayed_edits (fst (fire_debounce 1900 (sock_id sock_A) (snd (edit_burst sock_A
      [(1000, edit_ev ''E1'' ''v1'' 1000), (1400, edit_ev ''E1'' ''v2'' 1400)] init_server)))) =
     relay_of sock_A (snd (last
      [(1000 :: time, edit_ev ''E1'' ''v1'' 1000), (1400, edit_ev ''E1'' ''v2'' 1400)])) 1900 \<and>
   debounceMap (snd (edit_handler 1100 sock_A (edit_ev ''E1'' ''v11'' 1100)
      (snd (edit_burst sock_A ten_edits init_server)))) =
     debounceMap (snd (edit_burst sock_A ten_edits init_server)) \<and>
   fst (fire_debounce 1600 ''sA'' (snd (edit_handler 1100 sock_A (edit_ev ''E1'' ''v11'' 1100)
      (snd (edit_burst sock_A ten_edits init_server))))) =
     fst (fire_debounce 1600 ''sA'' (snd (edit_burst sock_A ten_edits init_server)))"
proof -
  let ?evs = "[(1000 :: time, edit_ev ''E1'' ''v1'' 1000), (1400, edit_ev ''E1'' ''v2'' 1400)]"
  let ?st10 = "snd (edit_burst sock_A ten_edits init_server)"
  have burst: "?evs \<noteq> [] \<and>
      (case debounceMap init_server (sock_id sock_A) of
         None \<Rightarrow> True | Some pe \<Rightarrow> fst (hd ?evs) < pe_fire_at pe) \<and>
      edits_admitted (sock_userId sock_A) ?evs (userEventCounts init_server) \<and>
      within_quiet_period (map fst ?evs) \<and> fst (last ?evs) + 500 \<le> 1900"
    by (simp add: eval_defs)
  have dropped: "edit_dropped 1100 sock_A (edit_ev ''E1'' ''v11'' 1100) ?st10"
    by (simp add: ten_edits_state) (simp add: edit_dropped_def eval_defs)
  have part1: "relayed_edits (fst (edit_burst sock_A ?evs init_server)) = [] \<and>
      relayed_edits (fst (fire_debounce 1900 (sock_id sock_A)
        (snd (edit_burst sock_A ?evs init_server)))) = relay_of sock_A (snd (last ?evs)) 1900 \<and>
      length (relay_of sock_A (snd (last ?evs)) 1900) = 1"
    by (rule mp [OF conjunct1 [OF debounce_burst_relays_last_admitted] burst])
  have part2: "relayed_edits (fst (edit_handler 1100 sock_A (edit_ev ''E1'' ''v11'' 1100) ?st10)) = [] \<and>
      debounceMap (snd (edit_handler 1100 sock_A (edit_ev ''E1'' ''v11'' 1100) ?st10)) =
        debounceMap ?st10 \<and>
      lastEditMap (snd (edit_handler 1100 sock_A (edit_ev ''E1'' ''v11'' 1100) ?st10)) =
        lastEditMap ?st10 \<and>
      fst (fire_debounce 1600 ''sA'' (snd (edit_handler 1100 sock_A (edit_ev ''E1'' ''v11'' 1100) ?st10))) =
        fst (fire_debounce 1600 ''sA'' ?st10)"
    by (rule mp [OF conjunct2 [OF debounce_burst_relays_last_admitted] dropped])
  show ?thesis
    using part1 part2 by simp
qed

text \<open>
  The claim as written fails for a burst that runs into the rate limit: of eleven edits
  within 100 ms the eleventh is rejected, it does not touch the timer, and the edit
  relayed is the tenth, not the last one submitted.
\<close>

theorem debounce_burst_rate_limited_counterexample:
  "relayed_edits (fst (fire_debounce 1600 ''sA''
      (snd (edit_burst sock_A (ten_edits @ [(1100, edit_ev ''E1'' ''v11'' 1100)]) init_server)))) =
     [(ToRoomExcept ''entry_E1'' ''sA'',
       \<lparr>ed_entryId = ''E1'', ed_content = Some ''v10'', ed_operation = Some ''update'',
        ed_cursorPosition = None, ed_userId = ''A'', ed_timestamp = 1600\<rparr>)]"
  by (simp add: edit_burst_append ten_edits_state) (simp add: eval_defs)

text \<open>
  An admitted event for another entry replaces the pending timer of the socket.
\<close>

lemma edit_for_other_entry_replaces_timer:
  assumes "debounceMap st (sock_id sock) = Some pe"
    and "pe_entryId pe = a"
    and "ev_entryId payload = Some b"
    and "b \<noteq> []"
    and "b \<noteq> a"
    and "\<not> falsy_num (ev_timestamp payload)"
    and "fst (checkRateLimit now (sock_userId sock) (userEventCounts st))"
  shows "debounceMap (snd (edit_handler now sock payload st)) (sock_id sock) =
           pending_of sock now payload \<and>
         relayed_edits (fst (edit_handler now sock payload st)) = [] \<and>
         lastEditMap (snd (edit_handler now sock payload st)) = lastEditMap st \<and>
         relayed_edits (fst (fire_debounce tf (sock_id sock)
                               (snd (edit_handler now sock payload st)))) =
           (if tf < now + 500 then [] else relay_of sock payload tf) \<and>
         map (\<lambda>r. ed_entryId (snd r)) (relay_of sock payload tf) = [b] \<and>
         lastEditMap (snd (fire_debounce tf (sock_id sock)
                             (snd (edit_handler now sock payload st)))) a = lastEditMap st a"
proof -
  have named: "\<not> falsy_str (ev_entryId payload)"
    using assms(3,4) by (simp add: falsy_str_def)
  let ?st1 = "snd (edit_handler now sock payload st)"
  have st1: "?st1 = st\<lparr>userEventCounts :=
                 snd (checkRateLimit now (sock_userId sock) (userEventCounts st)),
               debounceMap := (debounceMap st)(sock_id sock := pending_of sock now payload)\<rparr>"
    and norelay: "relayed_edits (fst (edit_handler now sock payload st)) = []"
    using edit_handler_admitted [OF named assms(6,7)] by simp_all
  have pending: "debounceMap ?st1 (sock_id sock) = pending_of sock now payload"
    by (simp add: st1)
  have last1: "lastEditMap ?st1 = lastEditMap st"
    by (simp add: st1)
  have fired: "relayed_edits (fst (fire_debounce tf (sock_id sock) ?st1)) =
      (if tf < now + 500 then [] else relay_of sock payload tf)"
    using assms(3)
    by (simp add: fire_debounce_def pending pending_of_def relay_of_def Let_def
          collab_event_names)
  have target: "map (\<lambda>r. ed_entryId (snd r)) (relay_of sock payload tf) = [b]"
    using assms(3) by (simp add: relay_of_def)
  have last2: "lastEditMap (snd (fire_debounce tf (sock_id sock) ?st1)) a = lastEditMap st a"
    using assms(3,5)
    by (simp add: fire_debounce_def pending pending_of_def Let_def last1)
  show ?thesis
    using pending norelay last1 fired target last2 by simp
qed

text \<open>
  C10, as the code has it. A socket holds a pending edit for entry \<open>a\<close>. When an edit event
  for another entry \<open>b\<close> from the same socket is handled, naming a timestamp and admitted
  by the rate limiter, the pending timer of the socket becomes the one for \<open>b\<close>; the
  handler relays nothing and leaves the last-edit records alone; whenever the timer is run
  afterwards it relays nothing before it is due and the edit for \<open>b\<close> after, and the
  last-edit record of \<open>a\<close> stays what it was: the edit to \<open>a\<close> is lost. When instead
  the event is dropped (it lacks entryId or timestamp, or the rate limiter rejects it),
  the timer for \<open>a\<close> stays pending and relays the edit to \<open>a\<close> once it is due.
\<close>

theorem debounce_key_is_socket_only:
  "(debounceMap st (sock_id sock) = Some pe \<and> pe_entryId pe = a \<and>
    ev_entryId payload = Some b \<and> b \<noteq> [] \<and> b \<noteq> a \<and>
    \<not> falsy_num (ev_timestamp payload) \<and>
    fst (checkRateLimit now (sock_userId sock) (userEventCounts st)) \<longrightarrow>
      debounceMap (snd (edit_handler now sock payload st)) (sock_id sock) =
        pending_of sock now payload \<and>
      relayed_edits (fst (edit_handler now sock payload st)) = [] \<and>
      lastEditMap (snd (edit_handler now sock payload st)) = lastEditMap st \<and>
      relayed_edits (fst (fire_debounce tf (sock_id sock)
                            (snd (edit_handler now sock payload st)))) =
        (if tf < now + 500 then [] else relay_of sock payload tf) \<and>
      map (\<lambda>r. ed_entryId (snd r)) (relay_of sock payload tf) = [b] \<and>
      lastEditMap (snd (fire_debounce tf (sock_id sock)
                          (snd (edit_handler now sock payload st)))) a = lastEditMap st a) \<and>
   (debounceMap st (sock_id sock) = Some pe \<and> edit_dropped now sock payload st \<longrightarrow>
      debounceMap (snd (edit_handler now sock payload st)) (sock_id sock) = Some pe \<and>
      relayed_edits (fst (edit_handler now sock payload st)) = [] \<and>
      relayed_edits (fst (fire_debounce tf (sock_id sock)
                            (snd (edit_handler now sock payload st)))) =
        (if tf < pe_fire_at pe then [] else relay_of_pending (sock_id sock) pe tf))"
proof -
  have replaced: "debounceMap st (sock_id sock) = Some pe \<and> pe_entryId pe = a \<and>
    ev_entryId payload = Some b \<and> b \<noteq> [] \<and> b \<noteq> a \<and>
    \<not> falsy_num (ev_timestamp payload) \<and>
    fst (checkRateLimit now (sock_userId sock) (userEventCounts st)) \<longrightarrow>
      debounceMap (snd (edit_handler now sock payload st)) (sock_id sock) =
        pending_of sock now payload \<and>
      relayed_edits (fst (edit_handler now sock payload st)) = [] \<and>
      lastEditMap (snd (edit_handler now sock payload st)) = lastEditMap st \<and>
      relayed_edits (fst (fire_debounce tf (sock_id sock)
                            (snd (edit_handler now sock payload st)))) =
        (if tf < now + 500 then [] else relay_of sock payload tf) \<and>
      map (\<lambda>r. ed_entryId (snd r)) (relay_of sock payload tf) = [b] \<and>
      lastEditMap (snd (fire_debounce tf (sock_id sock)
                          (snd (edit_handler now sock payload st)))) a = lastEditMap st a"
    using edit_for_other_entry_replaces_timer
      [where st = st and sock = sock and pe = pe and a = a and payload = payload and b = b
         and now = now and tf = tf]
    by blast
  have kept: "debounceMap st (sock_id sock) = Some pe \<and> edit_dropped now sock payload st \<longrightarrow>
      debounceMap (snd (edit_handler now sock payload st)) (sock_id sock) = Some pe \<and>
      relayed_edits (fst (edit_handler now sock payload st)) = [] \<and>
      relayed_edits (fst (fire_debounce tf (sock_id sock)
                            (snd (edit_handler now sock payload st)))) =
        (if tf < pe_fire_at pe then [] else relay_of_pending (sock_id sock) pe tf)"
  proof
    assume a: "debounceMap st (sock_id sock) = Some pe \<and> edit_dropped now sock payload st"
    then have d: "edit_dropped now sock payload st" and p: "debounceMap st (sock_id sock) = Some pe"
      by simp_all
    have p': "debounceMap (snd (edit_handler now sock payload st)) (sock_id sock) = Some pe"
      using edit_handler_dropped [OF d] p by simp
    show "debounceMap (snd (edit_handler now sock payload st)) (sock_id sock) = Some pe \<and>
      relayed_edits (fst (edit_handler now sock payload st)) = [] \<and>
      relayed_edits (fst (fire_debounce tf (sock_id sock)
                            (snd (edit_handler now sock payload st)))) =
        (if tf < pe_fire_at pe then [] else relay_of_pending (sock_id sock) pe tf)"
      using p' edit_handler_dropped [OF d] fire_debounce_pending [OF p'] by simp
  qed
  show ?thesis
    using replaced kept by (rule conjI)
qed

theorem debounce_key_is_socket_only_witness:
  "relayed_edits (fst (fire_debounce 1700 (sock_id sock_A)
      (snd (edit_handler 1200 sock_A (edit_ev ''E2'' ''w'' 1200)
         (snd (edit_handler 1000 sock_A (edit_ev ''E1'' ''v'' 1000) init_server)))))) =
     [(ToRoomExcept ''entry_E2'' ''sA'',
       \<lparr>ed_entryId = ''E2'', ed_content = Some ''w'', ed_operation = Some ''update'',
        ed_cursorPosition = None, ed_userId = ''A'', ed_timestamp = 1700\<rparr>)] \<and>
   lastEditMap (snd (fire_debounce 1700 (sock_id sock_A)
      (snd (edit_handler 1200 sock_A (edit_ev ''E2'' ''w'' 1200)
         (snd (edit_handler 1000 sock_A (edit_ev ''E1'' ''v'' 1000) init_server)))))) ''E1'' = None \<and>
   debounceMap (snd (edit_handler 1100 sock_A (edit_ev ''E2'' ''w'' 1100)
      (snd (edit_burst sock_A ten_edits init_server)))) (sock_id sock_A) =
     Some \<lparr>pe_fire_at = 1590, pe_entryId = ''E1'', pe_content = Some ''v10'',
       pe_operation = Some ''update'', pe_cursorPosition = None, pe_userId = ''A''\<rparr>"
proof -
  let ?st = "snd (edit_handler 1000 sock_A (edit_ev ''E1'' ''v'' 1000) init_server)"
  let ?pe = "\<lparr>pe_fire_at = 1500, pe_entryId = ''E1'', pe_content = Some ''v'',
      pe_operation = Some ''update'', pe_cursorPosition = None, pe_userId = ''A''\<rparr>"
  let ?st10 = "snd (edit_burst sock_A ten_edits init_server)"
  let ?pe10 = "\<lparr>pe_fire_at = 1590, pe_entryId = ''E1'', pe_content = Some ''v10'',
      pe_operation = Some ''update'', pe_cursorPosition = None, pe_userId = ''A''\<rparr>"
  have h: "debounceMap ?st (sock_id sock_A) = Some ?pe \<and> pe_entryId ?pe = ''E1'' \<and>
      ev_entryId (edit_ev ''E2'' ''w'' 1200) = Some ''E2'' \<and> ''E2'' \<noteq> [] \<and> ''E2'' \<noteq> ''E1'' \<and>
      \<not> falsy_num (ev_timestamp (edit_ev ''E2'' ''w'' 1200)) \<and>
      fst (checkRateLimit 1200 (sock_userId sock_A) (userEventCounts ?st))"
    by (simp add: eval_defs)
  have k: "debounceMap ?st10 (sock_id sock_A) = Some ?pe10 \<and>
      edit_dropped 1100 sock_A (edit_ev ''E2'' ''w'' 1100) ?st10"
    by (simp add: ten_edits_state) (simp add: edit_dropped_def eval_defs)
  have more: "lastEditMap ?st ''E1'' = None"
    "relay_of sock_A (edit_ev ''E2'' ''w'' 1200) 1700 =
       [(ToRoomExcept ''entry_E2'' ''sA'',
         \<lparr>ed_entryId = ''E2'', ed_content = Some ''w'', ed_operation = Some ''update'',
          ed_cursorPosition = None, ed_userId = ''A'', ed_timestamp = 1700\<rparr>)]"
    by (simp_all add: eval_defs relay_of_def)
  note part1 = mp [OF conjunct1 [OF debounce_key_is_socket_only [where tf = 1700]] h]
  note part2 = mp [OF conjunct2 [OF debounce_key_is_socket_only [where tf = 1600]] k]
  show ?thesis
    using part1 part2 more by simp
qed

text \<open>
  The claim as written fails when the event for the other entry is rejected by the rate
  limiter: the rejected event leaves the timer alone, and the pending edit of the first
  entry is relayed and recorded.
\<close>

theorem debounce_rejected_edit_keeps_timer_counterexample:
  "relayed_edits (fst (fire_debounce 1600 ''sA''
      (snd (edit_burst sock_A (ten_edits @ [(1100, edit_ev ''E2'' ''w'' 1100)]) init_server)))) =
     [(ToRoomExcept ''entry_E1'' ''sA'',
       \<lparr>ed_entryId = ''E1'', ed_content = Some ''v10'', ed_operation = Some ''update'',
        ed_cursorPosition = None, ed_userId = ''A'', ed_timestamp = 1600\<rparr>)] \<and>
   lastEditMap (snd (fire_debounce 1600 ''sA''
      (snd (edit_burst sock_A (ten_edits @ [(1100, edit_ev ''E2'' ''w'' 1100)]) init_server))))
     ''E1'' = Some \<lparr>le_userId = ''A'', le_timestamp = 1600\<rparr>"
  by (simp add: edit_burst_append ten_edits_state) (simp add: eval_defs)

subsection \<open>Rooms, presence and disconnect\<close>

lemmas scenario_defs = scenario_room_def scenario_friends_def scenario_editing_def
  thrown_def emitted_def state_of_def joinEntryRoom_def leaveEntryRoom_def
  userEditingEntry_def cursor_move_handler_def handleCursorMove_def upsert_viewing_def
  select_viewers_def update_status_def sendFriendsList_def setUserOnline_def
  setUserOffline_def updateStatus_def friend_of_rows_def disconnect_handler_def
  has_cursor_def has_membership_def social_event_names

lemma scenario_room_state:
  "scenario_room =
     init_server\<lparr>cursorStore := [(''E1'', [(''B'', \<lparr>c_userId = ''B'', c_position = (10, 5),
                                                  c_timestamp = 300\<rparr>)])],
       cursorThrottleMap := [''sB'' \<mapsto> 300],
       rooms := [(''entry_E1'', ''sB''), (''entry_E1'', ''sA'')],
       active_sessions :=
         [((''E1'', ''A''), \<lparr>s_status = ''viewing'', s_joined_at = 100, s_last_seen = 100\<rparr>),
          ((''E1'', ''B''), \<lparr>s_status = ''viewing'', s_joined_at = 200, s_last_seen = 200\<rparr>)]\<rparr>"
  by (simp add: scenario_defs eval_defs)

text \<open>
  C3, on the code. B is in the room of E1 with A and has a cursor there. When B
  disconnects and the store answers every query, the only message is the cursor-clear
  broadcast to the room: no "entry collaboration leave" is sent, so A is not told that the
  viewer left. Leaving the same room through leaveEntryRoom does broadcast it.
\<close>

theorem disconnect_sends_no_leave:
  "fst (disconnect_handler 400 True True True sock_B scenario_room) =
     [(ToRoomExcept ''entry_E1'' ''sB'', Some ''entry_cursor_clear'', CursorCleared ''B'' ''E1'')] \<and>
   emitted (leaveEntryRoom 400 True sock_B ''B'' ''E1'' scenario_room) =
     [(ToRoomExcept ''entry_E1'' ''sB'', Some ''entry_collab_leave'',
       EntryPresence ''E1'' ''B'' 400)]"
  by (simp add: scenario_room_state) (simp add: scenario_defs eval_defs)

text \<open>
  C4, on the code. In the same room, B disconnects while the update that marks B offline
  fails. setUserOffline rethrows, the handler's \<^verbatim>\<open>try\<close> block is left at once, and nothing
  else runs: no cursor-clear is broadcast, B's cursor stays in the cursor store and B's
  session row stays in the table.
\<close>

theorem disconnect_store_failure_skips_cleanup:
  "fst (disconnect_handler 400 False True True sock_B scenario_room) = [] \<and>
   has_cursor (snd (disconnect_handler 400 False True True sock_B scenario_room)) ''B'' ''E1'' \<and>
   has_membership (snd (disconnect_handler 400 False True True sock_B scenario_room)) ''B'' ''E1''"
  by (simp add: scenario_room_state) (simp add: scenario_defs eval_defs)

text \<open>In any state, a failure of that update leaves the cursor store and the sessions alone.\<close>

lemma disconnect_offline_failure:
  "disconnect_handler now False ok_select ok_delete sock st =
     ([], st\<lparr>rooms := filter (\<lambda>(room, sid). sid \<noteq> sock_id sock) (rooms st),
            connectedUsers := (connectedUsers st)(sock_userId sock := None)\<rparr>)"
  by (simp add: disconnect_handler_def setUserOffline_def Let_def)

text \<open>
  C5, on the code. A lists B as a friend and A's cache entry was written by
  sendFriendsList, with B among \<^verbatim>\<open>offlineFriends\<close>. When B comes online, updateStatus
  reads the property \<^verbatim>\<open>offline\<close>, which the entry does not have: setUserOnline throws a
  TypeError and A's cache entry is what it was, with B still offline.
\<close>

theorem friend_online_leaves_cache_stale:
  "friendsCache scenario_friends ''A'' =
     Some \<lparr>ce_onlineFriends = Some [], ce_offlineFriends = Some [''B''],
           ce_online = None, ce_offline = None\<rparr> \<and>
   thrown (setUserOnline 200 True True ''B'' ''sB'' scenario_friends) = Some TypeError \<and>
   friendsCache (state_of (setUserOnline 200 True True ''B'' ''sB'' scenario_friends)) ''A'' =
     friendsCache scenario_friends ''A''"
  by (simp add: scenario_defs eval_defs)

text \<open>Every entry that sendFriendsList writes makes updateStatus throw, in both directions.\<close>

lemma updateStatus_after_sendFriendsList:
  assumes "friendsCache st u = None"
  shows "updateStatus u f isOnline (friendsCache (state_of (sendFriendsList now True sock u st))) =
           (Some TypeError, friendsCache (state_of (sendFriendsList now True sock u st)))"
  using assms by (simp add: sendFriendsList_def state_of_def updateStatus_def Let_def)

text \<open>
  C6: the claim as written fails. A joined E1 and is editing; joining again sets the
  status back to viewing, besides refreshing the last-seen time.
\<close>

theorem rejoin_resets_status_counterexample:
  "map_of (active_sessions scenario_editing) (''E1'', ''A'') =
     Some \<lparr>s_status = ''editing'', s_joined_at = 100, s_last_seen = 200\<rparr> \<and>
   map_of (active_sessions (state_of (joinEntryRoom 300 True True sock_A ''A'' ''E1''
                                        scenario_editing))) (''E1'', ''A'') =
     Some \<lparr>s_status = ''viewing'', s_joined_at = 100, s_last_seen = 300\<rparr>"
  by (simp add: scenario_defs eval_defs)

text \<open>
  C7: the claim as written fails. From the empty state a cursor event of B for E1 creates
  a cursor, and B has no session row for E1.
\<close>

theorem cursor_without_membership_counterexample:
  "has_cursor (snd (cursor_move_handler 300 sock_B (Some ''E1'') (Some (10, 5)) init_server))
     ''B'' ''E1'' \<and>
   \<not> has_membership (snd (cursor_move_handler 300 sock_B (Some ''E1'') (Some (10, 5)) init_server))
     ''B'' ''E1''"
  by (simp add: scenario_defs eval_defs)


lemma upsert_viewing_row:
  "\<exists>row. map_of (upsert_viewing now e u tbl) (e, u) = Some row \<and> s_status row = ''viewing''"
  by (simp add: upsert_viewing_def update_conv split: option.splits)

lemma upsert_viewing_existing:
  assumes "map_of tbl (e, u) = Some row"
  shows "upsert_viewing now e u tbl =
           AList.update (e, u) (row\<lparr>s_status := ''viewing'', s_last_seen := now\<rparr>) tbl"
  using assms by (simp add: upsert_viewing_def)

lemma upsert_viewing_refresh:
  assumes "map_of tbl (e, u) = Some row" and "s_status row = ''viewing''"
  shows "upsert_viewing now e u tbl = refresh_last_seen now e u tbl"
proof -
  have "row\<lparr>s_status := ''viewing''\<rparr> = row"
    using assms(2) by (cases row) simp
  then have "row\<lparr>s_status := ''viewing'', s_last_seen := now\<rparr> = row\<lparr>s_last_seen := now\<rparr>"
    by simp
  then show ?thesis
    using assms(1) by (simp add: upsert_viewing_def refresh_last_seen_def)
qed

lemma joinEntryRoom_state:
  "state_of (joinEntryRoom now True True sock u e st) =
     st\<lparr>rooms := List.insert (room_of e, sock_id sock) (rooms st),
        active_sessions := upsert_viewing now e u (active_sessions st)\<rparr>"
  by (simp add: joinEntryRoom_def state_of_def Let_def)

text \<open>
  C6, as the code has it. When the store answers, joining a room that the user has already
  joined adds the socket to the room (a no-op when it is there), sets the status of the
  existing session row to viewing and its last-seen time to now, and changes nothing
  else. A join followed by a join gives the state of the single join with only the
  last-seen time of the row refreshed.
\<close>

theorem rejoin_refreshes_and_resets:
  "(map_of (active_sessions st) (e, u) = Some row \<longrightarrow>
      state_of (joinEntryRoom now True True sock u e st) =
        st\<lparr>rooms := List.insert (room_of e, sock_id sock) (rooms st),
           active_sessions :=
             AList.update (e, u) (row\<lparr>s_status := ''viewing'', s_last_seen := now\<rparr>)
               (active_sessions st)\<rparr>) \<and>
   state_of (joinEntryRoom now' True True sock u e
               (state_of (joinEntryRoom now True True sock u e st))) =
     (state_of (joinEntryRoom now True True sock u e st))
       \<lparr>active_sessions :=
          refresh_last_seen now' e u
            (active_sessions (state_of (joinEntryRoom now True True sock u e st)))\<rparr>"
proof -
  let ?st1 = "state_of (joinEntryRoom now True True sock u e st)"
  obtain row1 where row1: "map_of (active_sessions ?st1) (e, u) = Some row1"
      "s_status row1 = ''viewing''"
    using upsert_viewing_row [of now e u "active_sessions st"]
    by (auto simp: joinEntryRoom_state)
  have room: "List.insert (room_of e, sock_id sock) (rooms ?st1) = rooms ?st1"
    by (simp add: joinEntryRoom_state)
  have "state_of (joinEntryRoom now' True True sock u e ?st1) =
          ?st1\<lparr>rooms := rooms ?st1,
               active_sessions := refresh_last_seen now' e u (active_sessions ?st1)\<rparr>"
    by (subst joinEntryRoom_state) (simp only: room upsert_viewing_refresh [OF row1])
  then have twice: "state_of (joinEntryRoom now' True True sock u e ?st1) =
      ?st1\<lparr>active_sessions := refresh_last_seen now' e u (active_sessions ?st1)\<rparr>"
    by simp
  have once: "map_of (active_sessions st) (e, u) = Some row \<longrightarrow>
      ?st1 = st\<lparr>rooms := List.insert (room_of e, sock_id sock) (rooms st),
           active_sessions :=
             AList.update (e, u) (row\<lparr>s_status := ''viewing'', s_last_seen := now\<rparr>)
               (active_sessions st)\<rparr>"
    by (simp add: joinEntryRoom_state upsert_viewing_existing)
  show ?thesis
    using once twice by blast
qed

theorem rejoin_refreshes_and_resets_witness:
  "state_of (joinEntryRoom 300 True True sock_A ''A'' ''E1'' scenario_editing) =
     scenario_editing\<lparr>rooms := List.insert (room_of ''E1'', sock_id sock_A) (rooms scenario_editing),
        active_sessions :=
          AList.update (''E1'', ''A'')
            (\<lparr>s_status = ''editing'', s_joined_at = 100, s_last_seen = 200\<rparr>
               \<lparr>s_status := ''viewing'', s_last_seen := 300\<rparr>)
            (active_sessions scenario_editing)\<rparr>"
proof -
  have h: "map_of (active_sessions scenario_editing) (''E1'', ''A'') =
      Some \<lparr>s_status = ''editing'', s_joined_at = 100, s_last_seen = 200\<rparr>"
    by (simp add: scenario_defs eval_defs)
  show ?thesis
    using rejoin_refreshes_and_resets [of scenario_editing "''E1''" "''A''" _ 300 sock_A] h
    by blast
qed

lemma has_cursor_after_move:
  "has_cursor (st\<lparr>cursorStore := snd (handleCursorMove now sock u e p (cursorStore st))\<rparr>) u e"
  by (simp add: has_cursor_def handleCursorMove_def Let_def update_conv)

text \<open>
  C7, as the code has it. An accepted cursor event stores a cursor for the user and the
  entry whatever the session rows are, and no cursor event changes the session rows.
  Joining creates the session row and leaves the cursor store alone, so a member may have
  no cursor. Leaving, when the store answers, removes both the session row and the
  cursor of the user for the entry.
\<close>

theorem cursor_independent_of_membership:
  "(e \<noteq> [] \<and> now - (case cursorThrottleMap st (sock_id sock) of None \<Rightarrow> 0 | Some t \<Rightarrow> t) \<ge> 100 \<longrightarrow>
      has_cursor (snd (cursor_move_handler now sock (Some e) (Some p) st)) (sock_userId sock) e) \<and>
   active_sessions (snd (cursor_move_handler now sock entryId pos st)) = active_sessions st \<and>
   has_membership (state_of (joinEntryRoom now True True sock u e st)) u e \<and>
   cursorStore (state_of (joinEntryRoom now True True sock u e st)) = cursorStore st \<and>
   \<not> has_membership (state_of (leaveEntryRoom now True sock u e st)) u e \<and>
   \<not> has_cursor (state_of (leaveEntryRoom now True sock u e st)) u e"
proof -
  have move: "e \<noteq> [] \<and>
      now - (case cursorThrottleMap st (sock_id sock) of None \<Rightarrow> 0 | Some t \<Rightarrow> t) \<ge> 100 \<longrightarrow>
      has_cursor (snd (cursor_move_handler now sock (Some e) (Some p) st)) (sock_userId sock) e"
  proof
    assume a: "e \<noteq> [] \<and>
      now - (case cursorThrottleMap st (sock_id sock) of None \<Rightarrow> 0 | Some t \<Rightarrow> t) \<ge> 100"
    have "has_cursor (st\<lparr>cursorStore := snd (handleCursorMove now sock (sock_userId sock) e p
        (cursorStore st))\<rparr>) (sock_userId sock) e"
      by (rule has_cursor_after_move)
    then show "has_cursor (snd (cursor_move_handler now sock (Some e) (Some p) st))
        (sock_userId sock) e"
      using a by (simp add: cursor_move_handler_accepted has_cursor_def)
  qed
  have sessions: "active_sessions (snd (cursor_move_handler now sock entryId pos st)) =
      active_sessions st"
    by (simp add: cursor_move_handler_def Let_def split: option.splits prod.splits)
  have join: "has_membership (state_of (joinEntryRoom now True True sock u e st)) u e"
      "cursorStore (state_of (joinEntryRoom now True True sock u e st)) = cursorStore st"
    using upsert_viewing_row [of now e u "active_sessions st"]
    by (auto simp: joinEntryRoom_state has_membership_def)
  have leave: "\<not> has_membership (state_of (leaveEntryRoom now True sock u e st)) u e"
      "\<not> has_cursor (state_of (leaveEntryRoom now True sock u e st)) u e"
    by (simp_all add: leaveEntryRoom_def state_of_def Let_def has_membership_def has_cursor_def
          delete_conv update_conv split: option.splits)
  show ?thesis
    using move sessions join leave by blast
qed

theorem cursor_independent_of_membership_witness:
  "has_cursor (snd (cursor_move_handler 300 sock_B (Some ''E1'') (Some (10, 5)) init_server))
     (sock_userId sock_B) ''E1''"
proof -
  have h: "''E1'' \<noteq> [] \<and>
      300 - (case cursorThrottleMap init_server (sock_id sock_B) of None \<Rightarrow> 0 | Some t \<Rightarrow> t) \<ge> 100"
    by (simp add: init_server_def)
  show ?thesis
    using cursor_independent_of_membership [of "''E1''" 300 init_server sock_B "(10, 5)"] h
    by blast
qed

text \<open>No message of the disconnect handler is an "entry collaboration leave", in any state.\<close>

lemma notify_friends_events:
  "list_all (\<lambda>em. fst (snd em) \<noteq> Some ''entry_collab_leave'')
     (fst (snd (notify_friends now isOnline u rs fc)))"
proof (induction rs arbitrary: fc)
  case Nil
  then show ?case by simp
next
  case (Cons r rs)
  obtain res fc1 where us: "updateStatus r u isOnline fc = (res, fc1)"
    by (cases "updateStatus r u isOnline fc") auto
  show ?case
  proof (cases res)
    case None
    obtain res2 ems2 fc2 where rec: "notify_friends now isOnline u rs fc1 = (res2, ems2, fc2)"
      by (cases "notify_friends now isOnline u rs fc1") auto
    have "list_all (\<lambda>em. fst (snd em) \<noteq> Some ''entry_collab_leave'') ems2"
      using Cons.IH [of fc1] rec by simp
    then show ?thesis
      using us None rec by (simp add: social_event_names)
  next
    case (Some err)
    then show ?thesis
      using us by simp
  qed
qed

lemma clear_user_cursors_events:
  "list_all (\<lambda>em. fst (snd em) \<noteq> Some ''entry_collab_leave'')
     (fst (clear_user_cursors sock u cs))"
proof (induction cs)
  case Nil
  then show ?case by simp
next
  case (Cons c cs)
  obtain e cursors where c: "c = (e, cursors)"
    by (cases c) auto
  obtain ems rest where rec: "clear_user_cursors sock u cs = (ems, rest)"
    by (cases "clear_user_cursors sock u cs") auto
  have "list_all (\<lambda>em. fst (snd em) \<noteq> Some ''entry_collab_leave'') ems"
    using Cons.IH rec by simp
  then show ?case
    using c rec by (simp add: collab_event_names)
qed

lemma setUserOffline_events:
  "list_all (\<lambda>em. fst (snd em) \<noteq> Some ''entry_collab_leave'')
     (fst (snd (setUserOffline now ok_update ok_select u st)))"
proof -
  obtain res ems fc where nf:
      "notify_friends now False u (friend_of_rows u (friends st)) (friendsCache st) =
         (res, ems, fc)"
    by (cases "notify_friends now False u (friend_of_rows u (friends st)) (friendsCache st)")
      auto
  have "list_all (\<lambda>em. fst (snd em) \<noteq> Some ''entry_collab_leave'') ems"
    using notify_friends_events [of now False u "friend_of_rows u (friends st)" "friendsCache st"]
      nf by simp
  then show ?thesis
    using nf by (simp add: setUserOffline_def Let_def)
qed

lemma disconnect_never_sends_leave:
  "list_all (\<lambda>em. fst (snd em) \<noteq> Some ''entry_collab_leave'')
     (fst (disconnect_handler now ok_update ok_select ok_delete sock st))"
proof -
  let ?st0 = "st\<lparr>rooms := filter (\<lambda>(room, sid). sid \<noteq> sock_id sock) (rooms st),
                  connectedUsers := (connectedUsers st)(sock_userId sock := None)\<rparr>"
  obtain res ems st1 where off:
      "setUserOffline now ok_update ok_select (sock_userId sock) ?st0 = (res, ems, st1)"
    by (cases "setUserOffline now ok_update ok_select (sock_userId sock) ?st0") auto
  have ems: "list_all (\<lambda>em. fst (snd em) \<noteq> Some ''entry_collab_leave'') ems"
    using setUserOffline_events [of now ok_update ok_select "sock_userId sock" ?st0] off by simp
  obtain ems2 cs where clr:
      "clear_user_cursors sock (sock_userId sock) (cursorStore st1) = (ems2, cs)"
    by (cases "clear_user_cursors sock (sock_userId sock) (cursorStore st1)") auto
  have ems2: "list_all (\<lambda>em. fst (snd em) \<noteq> Some ''entry_collab_leave'') ems2"
    using clear_user_cursors_events [of sock "sock_userId sock" "cursorStore st1"] clr by simp
  show ?thesis
    using ems ems2 off clr
    by (cases res) (simp_all add: disconnect_handler_def Let_def)
qed

end
